theory Spec2Isabelle
  imports Complex_Main
begin

section \<open>Data model\<close>

text \<open>
  The backtester works on JavaScript numbers. In the main definitions prices,
  percentages and balances are exact reals, so a statement about them is a statement
  about the algorithm under exact arithmetic. Two parts of the program are given on
  the numbers the code computes with as well: the trigger ladder and the trailing-stop
  simulation with every operation rounded to binary64 (section \<open>Binary64
  arithmetic\<close>), and the legend test with \<open>Infinity\<close> and \<open>NaN\<close>
  (subsection \<open>The legend test on JavaScript numbers\<close>). Counters and
  indices are naturals. A time stamp is kept as the candle's \<open>openTime\<close> (epoch
  milliseconds); the source renders it with \<open>moment(...).format\<close>, which does not
  influence any decision. Console output is omitted.
\<close>

record Candle =
  openTime :: int
  openPrice :: real
  high :: real
  low :: real
  close :: real
  volume :: real
  closeTime :: int

datatype side = LONG | SHORT

record TriggerLevel =
  trigger :: real
  stopLoss :: real
  triggered :: bool
  hit :: bool

datatype updateType = INITIAL | TRAIL_UP | TRAIL_DOWN | HIT

text \<open>
  A quotient whose divisor is zero is \<open>Infinity\<close> or \<open>NaN\<close> in JavaScript,
  neither of which is a real number: \<open>js_div\<close> returns \<open>None\<close> there.
\<close>

definition js_div :: "real \<Rightarrow> real \<Rightarrow> real option" where
  "js_div a b = (if b = 0 then None else Some (a / b))"

record TrailingStopUpdate =
  price :: real
  time :: int
  type :: updateType
  market_price :: real
  profit_at_update :: "real option"
  triggerCandle :: "Candle option"

text \<open>
  A \<open>TradeExit\<close>; its field \<open>type\<close> is the constant \<open>'TRAILING_STOP'\<close> and is
  left out.
\<close>

record TradeExit =
  exit_price :: real
  exit_time :: int
  candles_until_exit :: nat
  trailing_stops :: "TrailingStopUpdate list"

text \<open>
  The run configuration (\<open>TradingConfig\<close>), flattened to the options the engine
  reads: \<open>account.initialBalance\<close>, \<open>account.positionSizePercent\<close>,
  \<open>strategy.lookbackPeriod.candles\<close>, \<open>strategy.lookbackPeriod.threshold\<close>,
  \<open>trade.maxLookForwardCandles\<close> and \<open>trade.trailingStop.maxTriggerLevels\<close>.
\<close>

record TradingConfig =
  initialBalance :: real
  positionSizePercent :: real
  lookbackCandles :: nat
  threshold :: real
  maxLookForwardCandles :: nat
  maxTriggerLevels :: nat

definition config :: TradingConfig where
  "config = \<lparr>initialBalance = 1000, positionSizePercent = 100, lookbackCandles = 72,
     threshold = 10, maxLookForwardCandles = 720, maxTriggerLevels = 20\<rparr>"

section \<open>Trigger ladder\<close>

text \<open>
  \<open>Backtester.calculateTriggerLevels\<close> (first variant): the level at index 0 carries
  the initial stop, then one level per \<open>i = 1 .. maxTriggerLevels\<close>, each computed
  from the fixed \<open>thresholdValue\<close>.
\<close>

definition nextLevel :: "real \<Rightarrow> side \<Rightarrow> real \<Rightarrow> nat \<Rightarrow> TriggerLevel" where
  "nextLevel entryPrice sd thresholdValue i =
     (if sd = LONG then
        (let trg = entryPrice + thresholdValue * real i;
             stp = trg - thresholdValue
         in \<lparr>trigger = trg, stopLoss = stp, triggered = False, hit = False\<rparr>)
      else
        (let trg = entryPrice - thresholdValue * real i;
             stp = trg + thresholdValue
         in \<lparr>trigger = trg, stopLoss = stp, triggered = False, hit = False\<rparr>))"

definition calculateTriggerLevels ::
  "TradingConfig \<Rightarrow> real \<Rightarrow> side \<Rightarrow> real \<Rightarrow> TriggerLevel list" where
  "calculateTriggerLevels cfg entryPrice sd dynamicThreshold =
     (let thresholdValue = entryPrice * (dynamicThreshold / 100);
          initialLevel = \<lparr>trigger = entryPrice,
             stopLoss = (if sd = LONG then entryPrice - thresholdValue
                         else entryPrice + thresholdValue),
             triggered = True, hit = False\<rparr>
      in initialLevel #
         map (nextLevel entryPrice sd thresholdValue) [1 ..< Suc (maxTriggerLevels cfg)])"

text \<open>
  \<open>Backtester.calculateTriggerLevels\<close> (second variant): twenty levels, each a
  percentage of the entry price; the list has no entry for the initial stop, which
  the second \<open>checkTradeOutcome\<close> computes by \<open>initialStop2\<close>.
\<close>

definition nextLevel2 :: "real \<Rightarrow> side \<Rightarrow> real \<Rightarrow> nat \<Rightarrow> TriggerLevel" where
  "nextLevel2 entryPrice sd thresholdMultiplier i =
     (if sd = LONG then
        \<lparr>trigger = entryPrice * (1 + thresholdMultiplier * real i),
         stopLoss = entryPrice * (1 + thresholdMultiplier * (real i - 1)),
         triggered = False, hit = False\<rparr>
      else
        \<lparr>trigger = entryPrice * (1 - thresholdMultiplier * real i),
         stopLoss = entryPrice * (1 - thresholdMultiplier * (real i - 1)),
         triggered = False, hit = False\<rparr>)"

definition calculateTriggerLevels2 :: "real \<Rightarrow> side \<Rightarrow> real \<Rightarrow> TriggerLevel list" where
  "calculateTriggerLevels2 entryPrice sd dynamicThreshold =
     (let thresholdMultiplier = dynamicThreshold / 100
      in map (nextLevel2 entryPrice sd thresholdMultiplier) [1 ..< 21])"

definition initialStop2 :: "real \<Rightarrow> side \<Rightarrow> real \<Rightarrow> real" where
  "initialStop2 entryPrice sd dynamicThreshold =
     (if sd = LONG then entryPrice * (1 - dynamicThreshold / 100)
      else entryPrice * (1 + dynamicThreshold / 100))"

section \<open>Trailing-stop simulation\<close>

text \<open>
  The entry handed to \<open>checkTradeOutcome\<close>: \<open>{price, side, size, dynamicThreshold}\<close>.
  The size is a quotient by the entry price (\<open>calculateTradeSize\<close>).
\<close>

record Entry =
  e_price :: real
  e_side :: side
  e_size :: "real option"
  e_dynamicThreshold :: real

text \<open>
  The mutable locals of \<open>checkTradeOutcome\<close>: the active stop, the index of the next
  pending trigger and the trailing history.
\<close>

record TrailState =
  currentStopLoss :: real
  currentTriggerIndex :: nat
  trailingHistory :: "TrailingStopUpdate list"

datatype fault = TypeError | MeanOfEmpty | NonFinite

text \<open>\<open>Backtester.createTradeExit\<close>: push the HIT event and build the exit.\<close>

definition createTradeExit ::
  "Candle \<Rightarrow> real \<Rightarrow> nat \<Rightarrow> TrailingStopUpdate list \<Rightarrow> TradeExit" where
  "createTradeExit candle stopLossPrice candlesUntilExit history =
     \<lparr>exit_price = stopLossPrice, exit_time = openTime candle,
      candles_until_exit = candlesUntilExit,
      trailing_stops = history @
        [\<lparr>price = stopLossPrice, time = openTime candle, type = HIT,
          market_price = stopLossPrice, profit_at_update = Some 0,
          triggerCandle = None\<rparr>]\<rparr>"

text \<open>The condition of the inner \<open>while\<close>: the candle reaches the trigger.\<close>

definition crossed :: "side \<Rightarrow> Candle \<Rightarrow> TriggerLevel \<Rightarrow> bool" where
  "crossed sd candle nextTrigger \<longleftrightarrow>
     (sd = LONG \<and> high candle \<ge> trigger nextTrigger) \<or>
     (sd = SHORT \<and> low candle \<le> trigger nextTrigger)"

text \<open>The event pushed when a trigger is crossed.\<close>

definition trailUpdate :: "real \<Rightarrow> side \<Rightarrow> Candle \<Rightarrow> TriggerLevel \<Rightarrow> TrailingStopUpdate" where
  "trailUpdate entryPrice sd candle nextTrigger =
     \<lparr>price = stopLoss nextTrigger, time = openTime candle,
      type = (if sd = LONG then TRAIL_UP else TRAIL_DOWN),
      market_price = (if sd = LONG then high candle else low candle),
      profit_at_update = map_option (\<lambda>q. q * 100)
        (js_div ((if sd = LONG then 1 else -1) * (trigger nextTrigger - entryPrice))
           entryPrice),
      triggerCandle = Some candle\<rparr>"

definition promote :: "real \<Rightarrow> side \<Rightarrow> Candle \<Rightarrow> TriggerLevel \<Rightarrow> TrailState \<Rightarrow> TrailState" where
  "promote entryPrice sd candle nextTrigger st =
     \<lparr>currentStopLoss = stopLoss nextTrigger,
      currentTriggerIndex = currentTriggerIndex st + 1,
      trailingHistory = trailingHistory st @ [trailUpdate entryPrice sd candle nextTrigger]\<rparr>"

text \<open>
  The inner loop \<open>while (currentTriggerIndex < triggerLevels.length)\<close> of the first
  variant: promote as long as the next pending trigger is crossed, else \<open>break\<close>.
\<close>

function applyTriggers ::
  "real \<Rightarrow> side \<Rightarrow> TriggerLevel list \<Rightarrow> Candle \<Rightarrow> TrailState \<Rightarrow> TrailState" where
  "applyTriggers entryPrice sd triggerLevels candle st =
     (if currentTriggerIndex st < length triggerLevels then
        (if crossed sd candle (triggerLevels ! currentTriggerIndex st) then
           applyTriggers entryPrice sd triggerLevels candle
             (promote entryPrice sd candle (triggerLevels ! currentTriggerIndex st) st)
         else st)
      else st)"
  by pat_completeness auto
termination
  by (relation "measure (\<lambda>(entryPrice, sd, triggerLevels, candle, st).
        length triggerLevels - currentTriggerIndex st)")
     (auto simp: promote_def)

declare applyTriggers.simps [simp del]

text \<open>The stop-hit test at the head of the loop body.\<close>

definition stopHit :: "side \<Rightarrow> Candle \<Rightarrow> real \<Rightarrow> bool" where
  "stopHit sd candle stp \<longleftrightarrow>
     (sd = LONG \<and> low candle \<le> stp) \<or> (sd = SHORT \<and> high candle \<ge> stp)"

text \<open>
  The loop \<open>for (let i = 1; i <= maxLookForwardCandles; i++)\<close> of the first variant,
  from iteration \<open>i\<close> in state \<open>st\<close>. \<open>None\<close> is the source's \<open>null\<close>.
\<close>

function tradeLoop ::
  "TradingConfig \<Rightarrow> Candle list \<Rightarrow> nat \<Rightarrow> real \<Rightarrow> side \<Rightarrow> TriggerLevel list \<Rightarrow>
   nat \<Rightarrow> TrailState \<Rightarrow> TradeExit option" where
  "tradeLoop cfg candles startIndex entryPrice sd triggerLevels i st =
     (if i \<le> maxLookForwardCandles cfg then
        (if startIndex + i \<ge> length candles then None
         else if stopHit sd (candles ! (startIndex + i)) (currentStopLoss st) then
           Some (createTradeExit (candles ! (startIndex + i)) (currentStopLoss st) i
                   (trailingHistory st))
         else tradeLoop cfg candles startIndex entryPrice sd triggerLevels (Suc i)
                (applyTriggers entryPrice sd triggerLevels (candles ! (startIndex + i)) st))
      else None)"
  by pat_completeness auto
termination
  by (relation "measure (\<lambda>(cfg, candles, startIndex, entryPrice, sd, triggerLevels, i, st).
        Suc (maxLookForwardCandles cfg) - i)")
     auto

declare tradeLoop.simps [simp del]

definition initialUpdate :: "Candle \<Rightarrow> real \<Rightarrow> real \<Rightarrow> TrailingStopUpdate" where
  "initialUpdate candle stp entryPrice =
     \<lparr>price = stp, time = openTime candle, type = INITIAL, market_price = entryPrice,
      profit_at_update = Some 0, triggerCandle = None\<rparr>"

text \<open>
  \<open>Backtester.checkTradeOutcome\<close> (first variant). Reading \<open>openTime\<close> of
  \<open>this.candles[startIndex]\<close> throws a TypeError when the index is out of range.
\<close>

definition checkTradeOutcome ::
  "TradingConfig \<Rightarrow> Candle list \<Rightarrow> nat \<Rightarrow> Entry \<Rightarrow> fault + TradeExit option" where
  "checkTradeOutcome cfg candles startIndex entry =
     (let triggerLevels = calculateTriggerLevels cfg (e_price entry) (e_side entry)
            (e_dynamicThreshold entry);
          stp = stopLoss (triggerLevels ! 0)
      in if startIndex \<ge> length candles then Inl TypeError
         else Inr (tradeLoop cfg candles startIndex (e_price entry) (e_side entry)
                triggerLevels 1
                \<lparr>currentStopLoss = stp, currentTriggerIndex = 1,
                 trailingHistory = [initialUpdate (candles ! startIndex) stp (e_price entry)]\<rparr>))"

text \<open>\<open>Backtester.calculatePnL\<close>; the percentage is a quotient by the entry price.\<close>

definition calculatePnL :: "real \<Rightarrow> real \<Rightarrow> side \<Rightarrow> real \<times> real option" where
  "calculatePnL entry ex sd =
     (let pnl = (if sd = LONG then ex - entry else entry - ex)
      in (pnl, map_option (\<lambda>q. q * 100) (js_div pnl entry)))"

subsection \<open>Second variant\<close>

text \<open>
  The body of the second variant's loop for one candle that did not hit the stop: a
  single \<open>if\<close> on the next pending trigger. Its local \<open>nextTriggerLevel\<close> always
  holds \<open>triggerLevels[currentTriggerIndex]\<close>.
\<close>

definition trailUpdate2 :: "real \<Rightarrow> side \<Rightarrow> Candle \<Rightarrow> TriggerLevel \<Rightarrow> TrailingStopUpdate" where
  "trailUpdate2 entryPrice sd candle nextTriggerLevel =
     (if sd = LONG then
        \<lparr>price = stopLoss nextTriggerLevel, time = openTime candle, type = TRAIL_UP,
         market_price = high candle,
         profit_at_update = map_option (\<lambda>q. q * 100)
           (js_div (high candle - entryPrice) entryPrice),
         triggerCandle = None\<rparr>
      else
        \<lparr>price = stopLoss nextTriggerLevel, time = openTime candle, type = TRAIL_DOWN,
         market_price = low candle,
         profit_at_update = map_option (\<lambda>q. q * 100)
           (js_div (entryPrice - low candle) entryPrice),
         triggerCandle = None\<rparr>)"

definition applyTrigger2 ::
  "real \<Rightarrow> side \<Rightarrow> TriggerLevel list \<Rightarrow> Candle \<Rightarrow> TrailState \<Rightarrow> TrailState" where
  "applyTrigger2 entryPrice sd triggerLevels candle st =
     (if currentTriggerIndex st < length triggerLevels \<and>
         (if sd = LONG then high candle \<ge> trigger (triggerLevels ! currentTriggerIndex st)
          else low candle \<le> trigger (triggerLevels ! currentTriggerIndex st))
      then \<lparr>currentStopLoss = stopLoss (triggerLevels ! currentTriggerIndex st),
            currentTriggerIndex = currentTriggerIndex st + 1,
            trailingHistory = trailingHistory st @
              [trailUpdate2 entryPrice sd candle (triggerLevels ! currentTriggerIndex st)]\<rparr>
      else st)"

definition hitExit2 :: "real \<Rightarrow> side \<Rightarrow> Candle \<Rightarrow> nat \<Rightarrow> TrailState \<Rightarrow> TradeExit" where
  "hitExit2 entryPrice sd candle i st =
     \<lparr>exit_price = currentStopLoss st, exit_time = openTime candle,
      candles_until_exit = i,
      trailing_stops = trailingHistory st @
        [\<lparr>price = currentStopLoss st, time = openTime candle, type = HIT,
          market_price = (if sd = LONG then low candle else high candle),
          profit_at_update = map_option (\<lambda>q. q * 100)
            (js_div (if sd = LONG then currentStopLoss st - entryPrice
                     else entryPrice - currentStopLoss st) entryPrice),
          triggerCandle = None\<rparr>]\<rparr>"

function tradeLoop2 ::
  "TradingConfig \<Rightarrow> Candle list \<Rightarrow> nat \<Rightarrow> real \<Rightarrow> side \<Rightarrow> TriggerLevel list \<Rightarrow>
   nat \<Rightarrow> TrailState \<Rightarrow> TradeExit option" where
  "tradeLoop2 cfg candles startIndex entryPrice sd triggerLevels i st =
     (if i \<le> maxLookForwardCandles cfg then
        (if startIndex + i \<ge> length candles then None
         else if (if sd = LONG then low (candles ! (startIndex + i)) \<le> currentStopLoss st
                  else high (candles ! (startIndex + i)) \<ge> currentStopLoss st) then
           Some (hitExit2 entryPrice sd (candles ! (startIndex + i)) i st)
         else tradeLoop2 cfg candles startIndex entryPrice sd triggerLevels (Suc i)
                (applyTrigger2 entryPrice sd triggerLevels (candles ! (startIndex + i)) st))
      else None)"
  by pat_completeness auto
termination
  by (relation "measure (\<lambda>(cfg, candles, startIndex, entryPrice, sd, triggerLevels, i, st).
        Suc (maxLookForwardCandles cfg) - i)")
     auto

declare tradeLoop2.simps [simp del]

text \<open>
  \<open>Backtester.checkTradeOutcome\<close> (second variant): the initial stop is computed
  apart from the ladder, and the first pending trigger is at index 0.
\<close>

definition checkTradeOutcome2 ::
  "TradingConfig \<Rightarrow> Candle list \<Rightarrow> nat \<Rightarrow> Entry \<Rightarrow> fault + TradeExit option" where
  "checkTradeOutcome2 cfg candles startIndex entry =
     (let triggerLevels = calculateTriggerLevels2 (e_price entry) (e_side entry)
            (e_dynamicThreshold entry);
          stp = initialStop2 (e_price entry) (e_side entry) (e_dynamicThreshold entry)
      in if startIndex \<ge> length candles then Inl TypeError
         else Inr (tradeLoop2 cfg candles startIndex (e_price entry) (e_side entry)
                triggerLevels 1
                \<lparr>currentStopLoss = stp, currentTriggerIndex = 0,
                 trailingHistory = [initialUpdate (candles ! startIndex) stp (e_price entry)]\<rparr>))"

section \<open>Entry resolver\<close>

text \<open>
  The legend candle handed to \<open>checkThresholdCrossing\<close> and its result. The
  direction \<open>'NONE'\<close> is \<open>None\<close>; \<open>crossed_at\<close> is \<open>None\<close> for the empty
  string. \<open>candleData\<close> is the copied \<open>{open, high, low, close, volume}\<close>.
\<close>

type_synonym CandleData = "real \<times> real \<times> real \<times> real \<times> real"

definition candleDataOf :: "Candle \<Rightarrow> CandleData" where
  "candleDataOf c = (openPrice c, high c, low c, close c, volume c)"

record LegendCandle =
  lc_timestamp :: int
  lc_close :: real
  upward_movementThreshold :: real
  downward_movementThreshold :: real
  candleData :: CandleData

record Crossing =
  direction :: "side option"
  crossed_at :: "int option"
  entry_price :: real
  candles_until_cross :: nat
  entryCandleData :: "CandleData option"

definition noCrossing :: Crossing where
  "noCrossing = \<lparr>direction = None, crossed_at = None, entry_price = 0,
     candles_until_cross = 0, entryCandleData = None\<rparr>"

text \<open>
  The loop of \<open>Backtester.checkThresholdCrossing\<close> (first variant) from iteration
  \<open>i\<close>: the upward level is tested first, both with non-strict comparisons.
\<close>

function crossingLoop ::
  "TradingConfig \<Rightarrow> Candle list \<Rightarrow> nat \<Rightarrow> LegendCandle \<Rightarrow> nat \<Rightarrow> Crossing" where
  "crossingLoop cfg candles startIndex legendCandle i =
     (if i \<le> maxLookForwardCandles cfg then
        (if startIndex + i \<ge> length candles then noCrossing
         else if high (candles ! (startIndex + i)) \<ge> upward_movementThreshold legendCandle then
           \<lparr>direction = Some LONG,
            crossed_at = Some (openTime (candles ! (startIndex + i))),
            entry_price = upward_movementThreshold legendCandle,
            candles_until_cross = i,
            entryCandleData = Some (candleDataOf (candles ! (startIndex + i)))\<rparr>
         else if low (candles ! (startIndex + i)) \<le> downward_movementThreshold legendCandle then
           \<lparr>direction = Some SHORT,
            crossed_at = Some (openTime (candles ! (startIndex + i))),
            entry_price = downward_movementThreshold legendCandle,
            candles_until_cross = i,
            entryCandleData = Some (candleDataOf (candles ! (startIndex + i)))\<rparr>
         else crossingLoop cfg candles startIndex legendCandle (Suc i))
      else noCrossing)"
  by pat_completeness auto
termination
  by (relation "measure (\<lambda>(cfg, candles, startIndex, legendCandle, i).
        Suc (maxLookForwardCandles cfg) - i)")
     auto

declare crossingLoop.simps [simp del]

definition checkThresholdCrossing ::
  "TradingConfig \<Rightarrow> Candle list \<Rightarrow> nat \<Rightarrow> LegendCandle \<Rightarrow> Crossing" where
  "checkThresholdCrossing cfg candles startIndex legendCandle =
     crossingLoop cfg candles startIndex legendCandle 1"

text \<open>
  Second variant: the horizon is \<open>Math.min(720, candles.length - startIndex)\<close>, the
  comparisons are strict and no entry candle data is recorded.
\<close>

function crossingLoop2 ::
  "nat \<Rightarrow> Candle list \<Rightarrow> nat \<Rightarrow> LegendCandle \<Rightarrow> nat \<Rightarrow> Crossing" where
  "crossingLoop2 lookForward candles startIndex legendCandle i =
     (if i \<le> lookForward then
        (if startIndex + i \<ge> length candles then noCrossing
         else if high (candles ! (startIndex + i)) > upward_movementThreshold legendCandle then
           \<lparr>direction = Some LONG,
            crossed_at = Some (openTime (candles ! (startIndex + i))),
            entry_price = upward_movementThreshold legendCandle,
            candles_until_cross = i, entryCandleData = None\<rparr>
         else if low (candles ! (startIndex + i)) < downward_movementThreshold legendCandle then
           \<lparr>direction = Some SHORT,
            crossed_at = Some (openTime (candles ! (startIndex + i))),
            entry_price = downward_movementThreshold legendCandle,
            candles_until_cross = i, entryCandleData = None\<rparr>
         else crossingLoop2 lookForward candles startIndex legendCandle (Suc i))
      else noCrossing)"
  by pat_completeness auto
termination
  by (relation "measure (\<lambda>(lookForward, candles, startIndex, legendCandle, i).
        Suc lookForward - i)")
     auto

declare crossingLoop2.simps [simp del]

definition checkThresholdCrossing2 :: "Candle list \<Rightarrow> nat \<Rightarrow> LegendCandle \<Rightarrow> Crossing" where
  "checkThresholdCrossing2 candles startIndex legendCandle =
     crossingLoop2 (min 720 (length candles - startIndex)) candles startIndex legendCandle 1"

section \<open>Threshold calculator and legend detector\<close>

text \<open>
  \<open>lookbackCandles.slice(-n)\<close>: the last \<open>n\<close> elements, and the whole array when
  \<open>n = 0\<close> (\<open>-0\<close> is \<open>0\<close>) or when \<open>n\<close> exceeds the length.
\<close>

definition sliceLast :: "nat \<Rightarrow> 'a list \<Rightarrow> 'a list" where
  "sliceLast n xs = (if n = 0 then xs else drop (length xs - n) xs)"

text \<open>\<open>array.slice(a, b)\<close> for \<open>0 \<le> a\<close>.\<close>

definition slice :: "nat \<Rightarrow> nat \<Rightarrow> 'a list \<Rightarrow> 'a list" where
  "slice a b xs = drop a (take b xs)"

text \<open>
  The movement of the candle under test, \<open>(|close - open| / open) * 100\<close>, and of a
  window candle, \<open>|(close - open) / open| * 100\<close>.
\<close>

definition currentDiffOf :: "Candle \<Rightarrow> real option" where
  "currentDiffOf c =
     map_option (\<lambda>q. q * 100) (js_div \<bar>close c - openPrice c\<bar> (openPrice c))"

definition previousDiffOf :: "Candle \<Rightarrow> real option" where
  "previousDiffOf c =
     map_option (\<lambda>q. \<bar>q\<bar> * 100) (js_div (close c - openPrice c) (openPrice c))"

record Detection =
  currentDiff :: real
  averageDiff :: real
  dynamicThreshold :: real

text \<open>
  The head of \<open>Backtester.processCandle\<close>, up to the legend test, on real numbers;
  this is the form the pipeline below uses. \<open>math.mean\<close> throws on an empty array.
  Where a candle has \<open>open = 0\<close> the source divides by zero and goes on with
  \<open>Infinity\<close> or \<open>NaN\<close>; \<open>detect\<close> does not follow it there and stops with
  \<open>NonFinite\<close>, which is not a fault of the source. The legend test with these values
  is \<open>legendTest\<close> below, and the two agree wherever \<open>detect\<close> returns a
  detection (lemma \<open>detect_legendTest\<close>).
\<close>

definition detect :: "TradingConfig \<Rightarrow> Candle \<Rightarrow> Candle list \<Rightarrow> fault + Detection" where
  "detect cfg currentCandle lookback =
     (let previousCandles = sliceLast (lookbackCandles cfg) lookback;
          previousDiffs = map previousDiffOf previousCandles
      in if previousDiffs = [] then Inl MeanOfEmpty
         else (case (currentDiffOf currentCandle, those previousDiffs) of
                 (Some cd, Some ds) \<Rightarrow>
                   (let avg = sum_list ds / real (length ds)
                    in Inr \<lparr>currentDiff = cd, averageDiff = avg,
                            dynamicThreshold = threshold cfg * avg\<rparr>)
               | _ \<Rightarrow> Inl NonFinite))"

subsection \<open>The legend test on JavaScript numbers\<close>

text \<open>
  A JavaScript number as far as the legend test needs it: a finite value, kept as a
  real, \<open>+Infinity\<close> (\<open>Infty True\<close>), \<open>-Infinity\<close> (\<open>Infty False\<close>) or
  \<open>NaN\<close>. The operations are those of IEEE 754 on these values, finite results
  being exact. The sign of a zero is not kept: a zero counts as \<open>+0\<close>, which is
  what a price of 0 is, so a nonzero value divided by zero has the sign of the dividend.
  A comparison with \<open>NaN\<close> is false.
\<close>

datatype jsnum = Fin real | Infty bool | NaN

fun jadd :: "jsnum \<Rightarrow> jsnum \<Rightarrow> jsnum" where
  "jadd NaN _ = NaN"
| "jadd _ NaN = NaN"
| "jadd (Fin a) (Fin b) = Fin (a + b)"
| "jadd (Fin a) (Infty s) = Infty s"
| "jadd (Infty s) (Fin b) = Infty s"
| "jadd (Infty s) (Infty s') = (if s = s' then Infty s else NaN)"

fun jmul :: "jsnum \<Rightarrow> jsnum \<Rightarrow> jsnum" where
  "jmul NaN _ = NaN"
| "jmul _ NaN = NaN"
| "jmul (Fin a) (Fin b) = Fin (a * b)"
| "jmul (Fin a) (Infty s) = (if a = 0 then NaN else Infty (s = (0 < a)))"
| "jmul (Infty s) (Fin b) = (if b = 0 then NaN else Infty (s = (0 < b)))"
| "jmul (Infty s) (Infty s') = Infty (s = s')"

fun jdiv :: "jsnum \<Rightarrow> jsnum \<Rightarrow> jsnum" where
  "jdiv NaN _ = NaN"
| "jdiv _ NaN = NaN"
| "jdiv (Fin a) (Fin b) =
     (if b = 0 then (if a = 0 then NaN else Infty (0 < a)) else Fin (a / b))"
| "jdiv (Fin a) (Infty s) = Fin 0"
| "jdiv (Infty s) (Fin b) = Infty (s = (0 \<le> b))"
| "jdiv (Infty s) (Infty s') = NaN"

fun jabs :: "jsnum \<Rightarrow> jsnum" where
  "jabs (Fin a) = Fin \<bar>a\<bar>"
| "jabs (Infty s) = Infty True"
| "jabs NaN = NaN"

fun jge :: "jsnum \<Rightarrow> jsnum \<Rightarrow> bool" where
  "jge NaN _ = False"
| "jge _ NaN = False"
| "jge (Fin a) (Fin b) = (a \<ge> b)"
| "jge (Fin a) (Infty s) = (\<not> s)"
| "jge (Infty s) (Fin b) = s"
| "jge (Infty s) (Infty s') = (s \<or> \<not> s')"

fun jgt :: "jsnum \<Rightarrow> jsnum \<Rightarrow> bool" where
  "jgt NaN _ = False"
| "jgt _ NaN = False"
| "jgt (Fin a) (Fin b) = (a > b)"
| "jgt (Fin a) (Infty s) = (\<not> s)"
| "jgt (Infty s) (Fin b) = s"
| "jgt (Infty s) (Infty s') = (s \<and> \<not> s')"

text \<open>
  The movements as the source computes them:
  \<open>(Math.abs(close - open) / open) * 100\<close> for the candle under test and
  \<open>Math.abs((close - open) / open) * 100\<close> for a window candle.
\<close>

definition currentDiffJ :: "Candle \<Rightarrow> jsnum" where
  "currentDiffJ c =
     jmul (jdiv (Fin \<bar>close c - openPrice c\<bar>) (Fin (openPrice c))) (Fin 100)"

definition previousDiffJ :: "Candle \<Rightarrow> jsnum" where
  "previousDiffJ c =
     jmul (jabs (jdiv (Fin (close c - openPrice c)) (Fin (openPrice c)))) (Fin 100)"

text \<open>
  \<open>math.mean\<close> on an array of numbers: the entries are added from the left and the
  sum is divided by their number; an empty array throws.
\<close>

definition math_mean :: "jsnum list \<Rightarrow> fault + jsnum" where
  "math_mean xs =
     (case xs of
        [] \<Rightarrow> Inl MeanOfEmpty
      | x # rest \<Rightarrow> Inr (jdiv (foldl jadd x rest) (Fin (real (length xs)))))"

text \<open>
  The head of \<open>Backtester.processCandle\<close>, up to the legend test: the window is
  \<open>lookbackCandles.slice(-lookbackPeriod.candles)\<close>, and
  \<open>dynamicThreshold = threshold * averageDiff\<close>.
\<close>

record LegendTest =
  lt_currentDiff :: jsnum
  lt_averageDiff :: jsnum
  lt_dynamicThreshold :: jsnum

definition legendTest :: "TradingConfig \<Rightarrow> Candle \<Rightarrow> Candle list \<Rightarrow> fault + LegendTest" where
  "legendTest cfg currentCandle lookback =
     (let previousCandles = sliceLast (lookbackCandles cfg) lookback;
          curDiff = currentDiffJ currentCandle;
          previousDiffs = map previousDiffJ previousCandles
      in case math_mean previousDiffs of
           Inl f \<Rightarrow> Inl f
         | Inr avg \<Rightarrow>
             Inr \<lparr>lt_currentDiff = curDiff, lt_averageDiff = avg,
                  lt_dynamicThreshold = jmul (Fin (threshold cfg)) avg\<rparr>)"

text \<open>
  The legend test: \<open>currentDiff >= dynamicThreshold\<close> in the first variant,
  \<open>currentDiff > dynamicThreshold\<close> in the second.
\<close>

definition isLegend :: "TradingConfig \<Rightarrow> Candle \<Rightarrow> Candle list \<Rightarrow> fault + bool" where
  "isLegend cfg currentCandle lookback =
     (case legendTest cfg currentCandle lookback of
        Inl f \<Rightarrow> Inl f
      | Inr d \<Rightarrow> Inr (jge (lt_currentDiff d) (lt_dynamicThreshold d)))"

definition isLegend2 :: "TradingConfig \<Rightarrow> Candle \<Rightarrow> Candle list \<Rightarrow> fault + bool" where
  "isLegend2 cfg currentCandle lookback =
     (case legendTest cfg currentCandle lookback of
        Inl f \<Rightarrow> Inl f
      | Inr d \<Rightarrow> Inr (jgt (lt_currentDiff d) (lt_dynamicThreshold d)))"


section \<open>Trade accountant and the per-candle pipeline\<close>

text \<open>
  \<open>x.toFixed(2)\<close> read back as a number: \<open>x\<close> rounded to two decimals, a tie
  going away from zero. The report strings of the source are kept as the numbers they
  are rendered from; purely textual fields are omitted.
\<close>

definition toFixed2 :: "real \<Rightarrow> real" where
  "toFixed2 x = sgn x * real_of_int \<lfloor>\<bar>x\<bar> * 100 + 1 / 2\<rfloor> / 100"

record TradeDetailsResult =
  trade_Number :: nat
  td_timestamp :: "int option"
  currentDynamicThreshold :: real
  LegendCandleDifference :: real
  LegendCandleDetails :: CandleData
  td_side :: side
  td_price :: real
  PositionEntryCandleDetails :: "CandleData option"
  initialStoploss :: real
  trails :: "TrailingStopUpdate list"
  td_exit_time :: int
  final_stop_loss_price :: real
  PNL_in_percent :: "real option"
  PNL :: real
  balance_after_trade :: real

record BalanceUpdate =
  bu_timestamp :: int
  balance :: real
  trade_pnl :: real

record MatchingCandle =
  mc_timestamp :: int
  mc_open :: real
  mc_close :: real
  movement :: "real option"
  mc_dynamicThreshold :: real
  averageMovement :: real
  numPreviousCandles :: nat
  mc_upward_movementThreshold :: real
  mc_downward_movementThreshold :: real
  threshold_crossed :: Crossing
  trade_result :: TradeDetailsResult

text \<open>The mutable fields of a \<open>Backtester\<close> that the pipeline writes.\<close>

record RunState =
  matchingCandles :: "MatchingCandle list"
  currentBalance :: real
  balanceHistory :: "BalanceUpdate list"

text \<open>
  \<open>Backtester.calculateTradeSize\<close> reads the position size from the module's default
  \<open>config\<close>, not from the run configuration.
\<close>

definition calculateTradeSize :: "RunState \<Rightarrow> real \<Rightarrow> real option" where
  "calculateTradeSize st entryPrice =
     (let positionSize = (currentBalance st * positionSizePercent config) / 100
      in js_div positionSize entryPrice)"

text \<open>
  \<open>Backtester.processTradeResult\<close>. The first entry of the trailing history is read
  by index, which throws on an empty history.
\<close>

definition processTradeResult ::
  "RunState \<Rightarrow> Crossing \<Rightarrow> side \<Rightarrow> TradeExit \<Rightarrow> real \<Rightarrow> real \<Rightarrow> CandleData \<Rightarrow>
   fault + TradeDetailsResult" where
  "processTradeResult st entry sd ex dynThreshold curDiff legendCandleData =
     (let (pnl, pnl_percentage) = calculatePnL (entry_price entry) (exit_price ex) sd
      in case trailing_stops ex of
           [] \<Rightarrow> Inl TypeError
         | first # _ \<Rightarrow>
             Inr \<lparr>trade_Number = length (matchingCandles st) + 1,
                  td_timestamp = crossed_at entry,
                  currentDynamicThreshold = dynThreshold,
                  LegendCandleDifference = toFixed2 curDiff,
                  LegendCandleDetails = legendCandleData,
                  td_side = sd,
                  td_price = entry_price entry,
                  PositionEntryCandleDetails = entryCandleData entry,
                  initialStoploss = price first,
                  trails = filter (\<lambda>stp. type stp \<noteq> INITIAL \<and> type stp \<noteq> HIT)
                             (trailing_stops ex),
                  td_exit_time = exit_time ex,
                  final_stop_loss_price = exit_price ex,
                  PNL_in_percent = map_option toFixed2 pnl_percentage,
                  PNL = toFixed2 pnl,
                  balance_after_trade = currentBalance st + pnl\<rparr>)"

definition updateBalance :: "TradeDetailsResult \<Rightarrow> RunState \<Rightarrow> RunState" where
  "updateBalance tradeResult st =
     st\<lparr>currentBalance := balance_after_trade tradeResult,
        balanceHistory := balanceHistory st @
          [\<lparr>bu_timestamp = td_exit_time tradeResult,
            balance = balance_after_trade tradeResult,
            trade_pnl = PNL tradeResult\<rparr>]\<rparr>"

definition storeMatchingCandle ::
  "TradingConfig \<Rightarrow> Candle \<Rightarrow> LegendCandle \<Rightarrow> Crossing \<Rightarrow> TradeDetailsResult \<Rightarrow> real \<Rightarrow>
   real \<Rightarrow> RunState \<Rightarrow> RunState" where
  "storeMatchingCandle cfg currentCandle legendCandle crossing tradeResult dynThreshold
       avgDiff st =
     st\<lparr>matchingCandles := matchingCandles st @
        [\<lparr>mc_timestamp = lc_timestamp legendCandle,
          mc_open = openPrice currentCandle,
          mc_close = close currentCandle,
          movement = previousDiffOf currentCandle,
          mc_dynamicThreshold = dynThreshold,
          averageMovement = avgDiff,
          numPreviousCandles = lookbackCandles cfg,
          mc_upward_movementThreshold = upward_movementThreshold legendCandle,
          mc_downward_movementThreshold = downward_movementThreshold legendCandle,
          threshold_crossed = crossing,
          trade_result = tradeResult\<rparr>]\<rparr>"

definition legendCandleOf :: "Candle \<Rightarrow> real \<Rightarrow> LegendCandle" where
  "legendCandleOf currentCandle dynThreshold =
     (let thresholdValue = close currentCandle * (dynThreshold / 100)
      in \<lparr>lc_timestamp = openTime currentCandle,
          lc_close = close currentCandle,
          upward_movementThreshold = close currentCandle + thresholdValue,
          downward_movementThreshold = close currentCandle - thresholdValue,
          candleData = candleDataOf currentCandle\<rparr>)"

text \<open>
  What \<open>processCandle\<close> does once a crossing with a direction is known: simulate the
  trade and, only \<open>if (exit)\<close>, book it.
\<close>

definition settleEntry ::
  "TradingConfig \<Rightarrow> Candle list \<Rightarrow> RunState \<Rightarrow> Candle \<Rightarrow> nat \<Rightarrow> Detection \<Rightarrow>
   LegendCandle \<Rightarrow> Crossing \<Rightarrow> side \<Rightarrow> fault + RunState" where
  "settleEntry cfg candles st currentCandle currentIndex d legendCandle crossing sd =
     (let tradeSize = calculateTradeSize st (entry_price crossing)
      in case checkTradeOutcome cfg candles (currentIndex + candles_until_cross crossing)
                \<lparr>e_price = entry_price crossing, e_side = sd, e_size = tradeSize,
                 e_dynamicThreshold = dynamicThreshold d\<rparr> of
           Inl f \<Rightarrow> Inl f
         | Inr None \<Rightarrow> Inr st
         | Inr (Some ex) \<Rightarrow>
             (case processTradeResult st crossing sd ex (dynamicThreshold d)
                     (currentDiff d) (candleData legendCandle) of
                Inl f \<Rightarrow> Inl f
              | Inr tradeResult \<Rightarrow>
                  Inr (storeMatchingCandle cfg currentCandle legendCandle crossing
                         tradeResult (dynamicThreshold d) (averageDiff d)
                         (updateBalance tradeResult st))))"

text \<open>\<open>Backtester.processCandle\<close> (first variant), on the run state.\<close>

definition processCandle ::
  "TradingConfig \<Rightarrow> Candle list \<Rightarrow> RunState \<Rightarrow> Candle \<Rightarrow> Candle list \<Rightarrow> nat \<Rightarrow>
   fault + RunState" where
  "processCandle cfg candles st currentCandle lookback currentIndex =
     (case detect cfg currentCandle lookback of
        Inl f \<Rightarrow> Inl f
      | Inr d \<Rightarrow>
          if currentDiff d \<ge> dynamicThreshold d then
            (let legendCandle = legendCandleOf currentCandle (dynamicThreshold d);
                 crossing = checkThresholdCrossing cfg candles currentIndex legendCandle
             in case direction crossing of
                  None \<Rightarrow> Inr st
                | Some sd \<Rightarrow>
                    settleEntry cfg candles st currentCandle currentIndex d legendCandle
                      crossing sd)
          else Inr st)"

text \<open>The loop of \<open>Backtester.findMatchingCandles\<close> (the report is not modelled).\<close>

definition findMatchingCandles :: "TradingConfig \<Rightarrow> Candle list \<Rightarrow> RunState \<Rightarrow> fault + RunState" where
  "findMatchingCandles cfg candles st0 =
     (let lookbackPeriod = lookbackCandles cfg + 10
      in fold (\<lambda>i acc. case acc of
                 Inl f \<Rightarrow> Inl f
               | Inr st \<Rightarrow> processCandle cfg candles st (candles ! i)
                            (slice (i - lookbackPeriod) i candles) i)
           [lookbackPeriod ..< length candles] (Inr st0))"

section \<open>Binary64 arithmetic\<close>

text \<open>
  A JavaScript number is an IEEE 754 binary64 value, and an arithmetic operation returns
  the exact result rounded to the nearest such value, a tie going to the one with the
  even significand. \<open>rne\<close> is this rounding to an integer.
\<close>

definition rne :: "real \<Rightarrow> int" where
  "rne x = (if frac x < 1 / 2 then \<lfloor>x\<rfloor>
            else if 1 / 2 < frac x then \<lfloor>x\<rfloor> + 1
            else if even \<lfloor>x\<rfloor> then \<lfloor>x\<rfloor> else \<lfloor>x\<rfloor> + 1)"

text \<open>
  \<open>fl64 x\<close> is \<open>x\<close> rounded to binary64: to a multiple of the unit in the last
  place \<open>2 ^ (e - 52)\<close>, where \<open>e\<close> is the exponent of \<open>x\<close>, not below the
  exponent -1022 of the subnormal numbers. Overflow to \<open>Infinity\<close> is not
  represented; the values computed below are far from it.
\<close>

definition fl64 :: "real \<Rightarrow> real" where
  "fl64 x = (if x = 0 then 0
             else (let e = max \<lfloor>log 2 \<bar>x\<bar>\<rfloor> (- 1022);
                       u = power_int 2 (e - 52)
                   in of_int (rne (x / u)) * u))"

text \<open>
  \<open>Backtester.calculateTriggerLevels\<close> (first variant) with the result of every
  arithmetic operation of the source passed through \<open>rnd\<close>:
  \<open>thresholdValue = entryPrice * (dynamicThreshold / 100)\<close> is two operations,
  \<open>entryPrice + (thresholdValue * i)\<close> is two, \<open>trigger - thresholdValue\<close> is one.
  The loop counter is an integer and exact. With \<open>rnd = fl64\<close> these are the numbers
  the code computes from binary64 inputs; with the identity they are the exact
  definitions above.
\<close>

definition nextLevelR :: "(real \<Rightarrow> real) \<Rightarrow> real \<Rightarrow> side \<Rightarrow> real \<Rightarrow> nat \<Rightarrow> TriggerLevel" where
  "nextLevelR rnd entryPrice sd thresholdValue i =
     (if sd = LONG then
        (let trg = rnd (entryPrice + rnd (thresholdValue * real i));
             stp = rnd (trg - thresholdValue)
         in \<lparr>trigger = trg, stopLoss = stp, triggered = False, hit = False\<rparr>)
      else
        (let trg = rnd (entryPrice - rnd (thresholdValue * real i));
             stp = rnd (trg + thresholdValue)
         in \<lparr>trigger = trg, stopLoss = stp, triggered = False, hit = False\<rparr>))"

definition calculateTriggerLevelsR ::
  "(real \<Rightarrow> real) \<Rightarrow> TradingConfig \<Rightarrow> real \<Rightarrow> side \<Rightarrow> real \<Rightarrow> TriggerLevel list" where
  "calculateTriggerLevelsR rnd cfg entryPrice sd dynThreshold =
     (let thresholdValue = rnd (entryPrice * rnd (dynThreshold / 100));
          initialLevel = \<lparr>trigger = entryPrice,
             stopLoss = (if sd = LONG then rnd (entryPrice - thresholdValue)
                         else rnd (entryPrice + thresholdValue)),
             triggered = True, hit = False\<rparr>
      in initialLevel #
         map (nextLevelR rnd entryPrice sd thresholdValue) [1 ..< Suc (maxTriggerLevels cfg)])"

text \<open>The loop of \<open>Backtester.checkTradeOutcome\<close> (first variant) on this ladder.\<close>

definition trailUpdateR ::
  "(real \<Rightarrow> real) \<Rightarrow> real \<Rightarrow> side \<Rightarrow> Candle \<Rightarrow> TriggerLevel \<Rightarrow> TrailingStopUpdate" where
  "trailUpdateR rnd entryPrice sd candle nextTrigger =
     \<lparr>price = stopLoss nextTrigger, time = openTime candle,
      type = (if sd = LONG then TRAIL_UP else TRAIL_DOWN),
      market_price = (if sd = LONG then high candle else low candle),
      profit_at_update = map_option (\<lambda>q. rnd (rnd q * 100))
        (js_div (rnd ((if sd = LONG then 1 else -1) * rnd (trigger nextTrigger - entryPrice)))
           entryPrice),
      triggerCandle = Some candle\<rparr>"

definition promoteR ::
  "(real \<Rightarrow> real) \<Rightarrow> real \<Rightarrow> side \<Rightarrow> Candle \<Rightarrow> TriggerLevel \<Rightarrow> TrailState \<Rightarrow> TrailState" where
  "promoteR rnd entryPrice sd candle nextTrigger st =
     \<lparr>currentStopLoss = stopLoss nextTrigger,
      currentTriggerIndex = currentTriggerIndex st + 1,
      trailingHistory = trailingHistory st @ [trailUpdateR rnd entryPrice sd candle nextTrigger]\<rparr>"

function applyTriggersR ::
  "(real \<Rightarrow> real) \<Rightarrow> real \<Rightarrow> side \<Rightarrow> TriggerLevel list \<Rightarrow> Candle \<Rightarrow> TrailState \<Rightarrow> TrailState" where
  "applyTriggersR rnd entryPrice sd triggerLevels candle st =
     (if currentTriggerIndex st < length triggerLevels then
        (if crossed sd candle (triggerLevels ! currentTriggerIndex st) then
           applyTriggersR rnd entryPrice sd triggerLevels candle
             (promoteR rnd entryPrice sd candle (triggerLevels ! currentTriggerIndex st) st)
         else st)
      else st)"
  by pat_completeness auto
termination
  by (relation "measure (\<lambda>(rnd, entryPrice, sd, triggerLevels, candle, st).
        length triggerLevels - currentTriggerIndex st)")
     (auto simp: promoteR_def)

declare applyTriggersR.simps [simp del]

function tradeLoopR ::
  "(real \<Rightarrow> real) \<Rightarrow> TradingConfig \<Rightarrow> Candle list \<Rightarrow> nat \<Rightarrow> real \<Rightarrow> side \<Rightarrow>
   TriggerLevel list \<Rightarrow> nat \<Rightarrow> TrailState \<Rightarrow> TradeExit option" where
  "tradeLoopR rnd cfg candles startIndex entryPrice sd triggerLevels i st =
     (if i \<le> maxLookForwardCandles cfg then
        (if startIndex + i \<ge> length candles then None
         else if stopHit sd (candles ! (startIndex + i)) (currentStopLoss st) then
           Some (createTradeExit (candles ! (startIndex + i)) (currentStopLoss st) i
                   (trailingHistory st))
         else tradeLoopR rnd cfg candles startIndex entryPrice sd triggerLevels (Suc i)
                (applyTriggersR rnd entryPrice sd triggerLevels (candles ! (startIndex + i)) st))
      else None)"
  by pat_completeness auto
termination
  by (relation "measure (\<lambda>(rnd, cfg, candles, startIndex, entryPrice, sd, triggerLevels, i, st).
        Suc (maxLookForwardCandles cfg) - i)")
     auto

declare tradeLoopR.simps [simp del]

definition checkTradeOutcomeR ::
  "(real \<Rightarrow> real) \<Rightarrow> TradingConfig \<Rightarrow> Candle list \<Rightarrow> nat \<Rightarrow> Entry \<Rightarrow>
   fault + TradeExit option" where
  "checkTradeOutcomeR rnd cfg candles startIndex entry =
     (let triggerLevels = calculateTriggerLevelsR rnd cfg (e_price entry) (e_side entry)
            (e_dynamicThreshold entry);
          stp = stopLoss (triggerLevels ! 0)
      in if startIndex \<ge> length candles then Inl TypeError
         else Inr (tradeLoopR rnd cfg candles startIndex (e_price entry) (e_side entry)
                triggerLevels 1
                \<lparr>currentStopLoss = stp, currentTriggerIndex = 1,
                 trailingHistory = [initialUpdate (candles ! startIndex) stp (e_price entry)]\<rparr>))"


section \<open>Auxiliary notions\<close>

text \<open>
  The invariant of the first variant's simulation state: the active stop is the stop of
  the last level applied, and the history logs the stops of the levels
  \<open>0 .. currentTriggerIndex - 1\<close> in order, one INITIAL event followed by trail events.
\<close>

definition ladderInv :: "side \<Rightarrow> TriggerLevel list \<Rightarrow> TrailState \<Rightarrow> bool" where
  "ladderInv sd levels st \<longleftrightarrow>
     1 \<le> currentTriggerIndex st \<and> currentTriggerIndex st \<le> length levels \<and>
     currentStopLoss st = stopLoss (levels ! (currentTriggerIndex st - 1)) \<and>
     map price (trailingHistory st) =
       map (\<lambda>j. stopLoss (levels ! j)) [0 ..< currentTriggerIndex st] \<and>
     map type (trailingHistory st) =
       INITIAL # replicate (currentTriggerIndex st - 1)
                   (if sd = LONG then TRAIL_UP else TRAIL_DOWN)"

text \<open>
  A candle touches a legend's levels when its high reaches the upward level or its low
  the downward level; \<open>crossingAt\<close> is the crossing the first variant reports for
  such a candle at offset \<open>j\<close>, the upward level tested first.
\<close>

definition crossingAt :: "Candle \<Rightarrow> LegendCandle \<Rightarrow> nat \<Rightarrow> Crossing" where
  "crossingAt c lc j =
     (if high c \<ge> upward_movementThreshold lc then
        \<lparr>direction = Some LONG, crossed_at = Some (openTime c),
         entry_price = upward_movementThreshold lc, candles_until_cross = j,
         entryCandleData = Some (candleDataOf c)\<rparr>
      else
        \<lparr>direction = Some SHORT, crossed_at = Some (openTime c),
         entry_price = downward_movementThreshold lc, candles_until_cross = j,
         entryCandleData = Some (candleDataOf c)\<rparr>)"

definition touches :: "Candle \<Rightarrow> LegendCandle \<Rightarrow> bool" where
  "touches c lc \<longleftrightarrow>
     high c \<ge> upward_movementThreshold lc \<or> low c \<le> downward_movementThreshold lc"




text \<open>
  The average movement of a window, as a real number; this is \<open>averageDiff\<close> when
  the window is not empty and every candle in it has a nonzero open.
\<close>

definition finiteAverage :: "Candle list \<Rightarrow> real" where
  "finiteAverage w =
     sum_list (map (\<lambda>c. \<bar>(close c - openPrice c) / openPrice c\<bar> * 100) w) / real (length w)"

section \<open>Sample inputs\<close>

definition c0 :: Candle where
  "c0 = \<lparr>openTime = 0, openPrice = 180, high = 190, low = 179, close = 189,
          volume = 1, closeTime = 59\<rparr>"

definition cBig :: Candle where
  "cBig = \<lparr>openTime = 60, openPrice = 191, high = 210, low = 190, close = 209,
          volume = 1, closeTime = 119\<rparr>"

definition cBoth :: Candle where
  "cBoth = \<lparr>openTime = 60, openPrice = 185, high = 200, low = 170, close = 195,
          volume = 1, closeTime = 119\<rparr>"

definition cDip :: Candle where
  "cDip = \<lparr>openTime = 120, openPrice = 199, high = 200, low = 195, close = 196,
          volume = 1, closeTime = 179\<rparr>"

definition entry189 :: Entry where
  "entry189 = \<lparr>e_price = 189, e_side = LONG, e_size = Some 1, e_dynamicThreshold = 5\<rparr>"

definition cfg3 :: TradingConfig where
  "cfg3 = config\<lparr>lookbackCandles := 3, threshold := 2\<rparr>"

definition flat :: Candle where
  "flat = \<lparr>openTime = 0, openPrice = 100, high = 100, low = 100, close = 100,
            volume = 1, closeTime = 59\<rparr>"

definition calm :: Candle where
  "calm = \<lparr>openTime = 0, openPrice = 100, high = 101, low = 100, close = 101,
            volume = 1, closeTime = 59\<rparr>"

definition cLegend :: Candle where
  "cLegend = \<lparr>openTime = 60, openPrice = 100, high = 105, low = 100, close = 105,
            volume = 1, closeTime = 119\<rparr>"

definition cEnter :: Candle where
  "cEnter = \<lparr>openTime = 120, openPrice = 105, high = 108, low = 104, close = 107,
            volume = 1, closeTime = 179\<rparr>"

definition cHold :: Candle where
  "cHold = \<lparr>openTime = 180, openPrice = 107, high = 107.5, low = 106, close = 107,
            volume = 1, closeTime = 239\<rparr>"

definition state0 :: RunState where
  "state0 = \<lparr>matchingCandles = [], currentBalance = 1000, balanceHistory = []\<rparr>"

definition cOrigin :: Candle where
  "cOrigin = \<lparr>openTime = 0, openPrice = 170, high = 181, low = 170, close = 180,
            volume = 1, closeTime = 59\<rparr>"

definition cTouch :: Candle where
  "cTouch = \<lparr>openTime = 60, openPrice = 180, high = 189, low = 175, close = 188,
            volume = 1, closeTime = 119\<rparr>"


section \<open>Properties of the trigger ladder\<close>

lemma length_calculateTriggerLevels:
  "length (calculateTriggerLevels cfg P sd t) = Suc (maxTriggerLevels cfg)"
  by (simp add: calculateTriggerLevels_def Let_def)

lemma calculateTriggerLevels_0:
  "calculateTriggerLevels cfg P sd t ! 0 =
     \<lparr>trigger = P,
      stopLoss = (if sd = LONG then P - P * (t / 100) else P + P * (t / 100)),
      triggered = True, hit = False\<rparr>"
  by (simp add: calculateTriggerLevels_def Let_def)

lemma calculateTriggerLevels_nth:
  assumes "1 \<le> j" and "j \<le> maxTriggerLevels cfg"
  shows "calculateTriggerLevels cfg P sd t ! j = nextLevel P sd (P * (t / 100)) j"
proof -
  obtain k where k: "j = Suc k" using assms(1) by (cases j) auto
  have "k < length [1 ..< Suc (maxTriggerLevels cfg)]" using assms(2) k by simp
  then have "map (nextLevel P sd (P * (t / 100))) [1 ..< Suc (maxTriggerLevels cfg)] ! k
      = nextLevel P sd (P * (t / 100)) ([1 ..< Suc (maxTriggerLevels cfg)] ! k)"
    by (rule nth_map)
  also have "[1 ..< Suc (maxTriggerLevels cfg)] ! k = 1 + k"
    by (rule nth_upt) (use assms(2) k in simp)
  finally show ?thesis by (simp add: calculateTriggerLevels_def Let_def k)
qed

lemma trigger_nth:
  assumes "j \<le> maxTriggerLevels cfg"
  shows "trigger (calculateTriggerLevels cfg P sd t ! j) =
     (if sd = LONG then P + P * (t / 100) * real j else P - P * (t / 100) * real j)"
proof (cases "j = 0")
  case True
  then show ?thesis by (simp add: calculateTriggerLevels_0)
next
  case False
  then have "1 \<le> j" by simp
  then show ?thesis
    using assms by (simp add: calculateTriggerLevels_nth nextLevel_def Let_def)
qed

lemma stopLoss_nth:
  assumes "j \<le> maxTriggerLevels cfg"
  shows "stopLoss (calculateTriggerLevels cfg P sd t ! j) =
     (if sd = LONG then P + P * (t / 100) * (real j - 1)
      else P - P * (t / 100) * (real j - 1))"
proof (cases "j = 0")
  case True
  then show ?thesis by (simp add: calculateTriggerLevels_0 algebra_simps)
next
  case False
  then have "1 \<le> j" by simp
  then show ?thesis
    using assms by (simp add: calculateTriggerLevels_nth nextLevel_def Let_def field_simps)
qed

section \<open>Properties of the trailing-stop loop\<close>

lemma tradeLoop_hit:
  assumes "i \<le> maxLookForwardCandles cfg"
    and "startIndex + i < length candles"
    and "stopHit sd (candles ! (startIndex + i)) (currentStopLoss st)"
  shows "tradeLoop cfg candles startIndex P sd levels i st =
     Some (createTradeExit (candles ! (startIndex + i)) (currentStopLoss st) i
             (trailingHistory st))"
  using assms by (subst tradeLoop.simps) simp

lemma tradeLoop_step:
  assumes "i \<le> maxLookForwardCandles cfg"
    and "startIndex + i < length candles"
    and "\<not> stopHit sd (candles ! (startIndex + i)) (currentStopLoss st)"
  shows "tradeLoop cfg candles startIndex P sd levels i st =
     tradeLoop cfg candles startIndex P sd levels (Suc i)
       (applyTriggers P sd levels (candles ! (startIndex + i)) st)"
  using assms by (subst tradeLoop.simps) simp

lemma tradeLoop_end:
  assumes "maxLookForwardCandles cfg < i \<or> length candles \<le> startIndex + i"
  shows "tradeLoop cfg candles startIndex P sd levels i st = None"
  using assms by (subst tradeLoop.simps) auto

lemma stopHit2_iff:
  "(if sd = LONG then low c \<le> s else high c \<ge> s) \<longleftrightarrow> stopHit sd c s"
  by (cases sd) (simp_all add: stopHit_def)

lemma tradeLoop2_hit:
  assumes "i \<le> maxLookForwardCandles cfg"
    and "startIndex + i < length candles"
    and "stopHit sd (candles ! (startIndex + i)) (currentStopLoss st)"
  shows "tradeLoop2 cfg candles startIndex P sd levels i st =
     Some (hitExit2 P sd (candles ! (startIndex + i)) i st)"
  using assms by (subst tradeLoop2.simps) (simp add: stopHit2_iff)

lemma tradeLoop2_step:
  assumes "i \<le> maxLookForwardCandles cfg"
    and "startIndex + i < length candles"
    and "\<not> stopHit sd (candles ! (startIndex + i)) (currentStopLoss st)"
  shows "tradeLoop2 cfg candles startIndex P sd levels i st =
     tradeLoop2 cfg candles startIndex P sd levels (Suc i)
       (applyTrigger2 P sd levels (candles ! (startIndex + i)) st)"
  using assms by (subst tradeLoop2.simps) (simp add: stopHit2_iff)

lemma tradeLoop2_end:
  assumes "maxLookForwardCandles cfg < i \<or> length candles \<le> startIndex + i"
  shows "tradeLoop2 cfg candles startIndex P sd levels i st = None"
  using assms by (subst tradeLoop2.simps) auto

lemma config_level:
  assumes "1 \<le> j" and "j \<le> 20"
  shows "calculateTriggerLevels config P sd t ! j = nextLevel P sd (P * (t / 100)) j"
  by (rule calculateTriggerLevels_nth) (use assms in \<open>simp_all add: config_def\<close>)

text \<open>
  C1. At any iteration of the simulation loop, in any state, a candle that reaches the
  active stop ends the trade there, whether or not it also reaches the next trigger:
  the exit price is the active stop and the returned history is the history so far
  followed by the single HIT event, so no trail promotion is recorded on this candle
  or after it. This holds for the loops of both variants.
\<close>

theorem stop_precedence:
  assumes "i \<le> maxLookForwardCandles cfg"
    and "startIndex + i < length candles"
    and "stopHit sd (candles ! (startIndex + i)) (currentStopLoss st)"
  shows "(\<exists>ex h. tradeLoop cfg candles startIndex P sd levels i st = Some ex
            \<and> exit_price ex = currentStopLoss st \<and> candles_until_exit ex = i
            \<and> trailing_stops ex = trailingHistory st @ [h]
            \<and> type h = HIT \<and> price h = currentStopLoss st)
       \<and> (\<exists>ex h. tradeLoop2 cfg candles startIndex P sd levels2 i st = Some ex
            \<and> exit_price ex = currentStopLoss st \<and> candles_until_exit ex = i
            \<and> trailing_stops ex = trailingHistory st @ [h]
            \<and> type h = HIT \<and> price h = currentStopLoss st)"
proof
  show "\<exists>ex h. tradeLoop cfg candles startIndex P sd levels i st = Some ex
            \<and> exit_price ex = currentStopLoss st \<and> candles_until_exit ex = i
            \<and> trailing_stops ex = trailingHistory st @ [h]
            \<and> type h = HIT \<and> price h = currentStopLoss st"
    by (simp add: tradeLoop_hit [OF assms] createTradeExit_def)
next
  show "\<exists>ex h. tradeLoop2 cfg candles startIndex P sd levels2 i st = Some ex
            \<and> exit_price ex = currentStopLoss st \<and> candles_until_exit ex = i
            \<and> trailing_stops ex = trailingHistory st @ [h]
            \<and> type h = HIT \<and> price h = currentStopLoss st"
    by (simp add: tradeLoop2_hit [OF assms] hitExit2_def)
qed

theorem stop_precedence_witness:
  "crossed LONG cBoth (calculateTriggerLevels config 189 LONG 5 ! 1)
   \<and> (\<exists>ex h. tradeLoop config [c0, cBoth] 0 189 LONG
              (calculateTriggerLevels config 189 LONG 5) 1
              \<lparr>currentStopLoss = 179.55, currentTriggerIndex = 1,
               trailingHistory = [initialUpdate c0 179.55 189]\<rparr> = Some ex
        \<and> exit_price ex = 179.55 \<and> candles_until_exit ex = 1
        \<and> trailing_stops ex = [initialUpdate c0 179.55 189, h] \<and> type h = HIT
        \<and> price h = 179.55)
   \<and> (\<exists>ex h. tradeLoop2 config [c0, cBoth] 0 189 LONG
              (calculateTriggerLevels2 189 LONG 5) 1
              \<lparr>currentStopLoss = 179.55, currentTriggerIndex = 1,
               trailingHistory = [initialUpdate c0 179.55 189]\<rparr> = Some ex
        \<and> exit_price ex = 179.55 \<and> candles_until_exit ex = 1
        \<and> trailing_stops ex = [initialUpdate c0 179.55 189, h] \<and> type h = HIT
        \<and> price h = 179.55)"
proof -
  let ?st = "\<lparr>currentStopLoss = 179.55, currentTriggerIndex = 1,
               trailingHistory = [initialUpdate c0 179.55 189]\<rparr>"
  have h1: "1 \<le> maxLookForwardCandles config" by (simp add: config_def)
  have h2: "0 + 1 < length [c0, cBoth]" by simp
  have h3: "stopHit LONG ([c0, cBoth] ! (0 + 1)) (currentStopLoss ?st)"
    by (simp add: stopHit_def cBoth_def)
  have cr: "crossed LONG cBoth (calculateTriggerLevels config 189 LONG 5 ! 1)"
    by (simp add: crossed_def cBoth_def config_level nextLevel_def)
  show ?thesis
    using stop_precedence [OF h1 h2 h3, of 189 "calculateTriggerLevels config 189 LONG 5"
        "calculateTriggerLevels2 189 LONG 5"] cr
    by simp
qed

lemma applyTriggers_run:
  assumes "currentTriggerIndex st + k \<le> length levels"
    and "\<forall>j<k. crossed sd c (levels ! (currentTriggerIndex st + j))"
    and "currentTriggerIndex st + k < length levels \<longrightarrow>
           \<not> crossed sd c (levels ! (currentTriggerIndex st + k))"
  shows "applyTriggers P sd levels c st =
     \<lparr>currentStopLoss = (if k = 0 then currentStopLoss st
                         else stopLoss (levels ! (currentTriggerIndex st + k - 1))),
      currentTriggerIndex = currentTriggerIndex st + k,
      trailingHistory = trailingHistory st @
        map (\<lambda>j. trailUpdate P sd c (levels ! (currentTriggerIndex st + j))) [0 ..< k]\<rparr>"
  using assms
proof (induction k arbitrary: st)
  case 0
  then show ?case by (subst applyTriggers.simps) simp
next
  case (Suc k)
  let ?st' = "promote P sd c (levels ! currentTriggerIndex st) st"
  have idx: "currentTriggerIndex ?st' = Suc (currentTriggerIndex st)"
    by (simp add: promote_def)
  have lt: "currentTriggerIndex st < length levels" using Suc.prems(1) by simp
  have cr: "crossed sd c (levels ! currentTriggerIndex st)"
    using Suc.prems(2) by (metis add.right_neutral zero_less_Suc)
  have step: "applyTriggers P sd levels c st = applyTriggers P sd levels c ?st'"
    using lt cr by (subst applyTriggers.simps) simp
  have a: "currentTriggerIndex ?st' + k \<le> length levels"
    using Suc.prems(1) idx by simp
  have b: "\<forall>j<k. crossed sd c (levels ! (currentTriggerIndex ?st' + j))"
    using Suc.prems(2) idx by (metis Suc_less_eq add_Suc add_Suc_right)
  have c: "currentTriggerIndex ?st' + k < length levels \<longrightarrow>
           \<not> crossed sd c (levels ! (currentTriggerIndex ?st' + k))"
    using Suc.prems(3) idx by simp
  have m: "map (\<lambda>j. trailUpdate P sd c (levels ! (currentTriggerIndex st + j))) [0 ..< Suc k]
      = trailUpdate P sd c (levels ! currentTriggerIndex st) #
        map (\<lambda>j. trailUpdate P sd c (levels ! (Suc (currentTriggerIndex st) + j))) [0 ..< k]"
    by (simp add: upt_conv_Cons map_Suc_upt [symmetric] del: upt_Suc)
  show ?case
    unfolding step Suc.IH [OF a b c] idx m
    by (simp add: promote_def)
qed

lemma levels2_nth:
  assumes "j < 20"
  shows "calculateTriggerLevels2 P sd t ! j = nextLevel2 P sd (t / 100) (Suc j)"
proof -
  have "j < length [1 ..< 21]" using assms by simp
  then have "map (nextLevel2 P sd (t / 100)) [1 ..< 21] ! j
      = nextLevel2 P sd (t / 100) ([1 ..< 21] ! j)"
    by (rule nth_map)
  also have "[1 ..< 21] ! j = 1 + j"
    by (rule nth_upt) (use assms in simp)
  finally show ?thesis by (simp add: calculateTriggerLevels2_def Let_def)
qed

lemma length_levels2: "length (calculateTriggerLevels2 P sd t) = 20"
  by (simp add: calculateTriggerLevels2_def Let_def)

lemma sample_run_first_variant:
  "\<exists>ex. checkTradeOutcome config [c0, cBig, cDip] 0 entry189 = Inr (Some ex)
        \<and> exit_price ex = 198.45 \<and> candles_until_exit ex = 2"
proof -
  let ?l1 = "calculateTriggerLevels config 189 LONG 5"
  let ?t0 = "\<lparr>currentStopLoss = 179.55, currentTriggerIndex = 1,
         trailingHistory = [initialUpdate c0 179.55 189]\<rparr>"
  have H: "maxLookForwardCandles config = 720" by (simp add: config_def)
  have a: "\<not> stopHit LONG cBig 179.55" by (simp add: stopHit_def cBig_def)
  have g1: "currentTriggerIndex ?t0 + 2 \<le> length ?l1"
    by (simp add: length_calculateTriggerLevels config_def)
  have g2: "\<forall>j<2. crossed LONG cBig (?l1 ! (currentTriggerIndex ?t0 + j))"
    by (simp add: less_Suc_eq numeral_2_eq_2 crossed_def cBig_def config_level nextLevel_def)
  have g3: "currentTriggerIndex ?t0 + 2 < length ?l1 \<longrightarrow>
           \<not> crossed LONG cBig (?l1 ! (currentTriggerIndex ?t0 + 2))"
    by (simp add: crossed_def cBig_def config_level nextLevel_def)
  define t1 where "t1 = applyTriggers 189 LONG ?l1 cBig ?t0"
  have t1s: "currentStopLoss t1 = 198.45"
    unfolding t1_def applyTriggers_run [OF g1 g2 g3]
    by (simp add: config_level nextLevel_def)
  have "tradeLoop config [c0, cBig, cDip] 0 189 LONG ?l1 1 ?t0
      = tradeLoop config [c0, cBig, cDip] 0 189 LONG ?l1 2 t1"
    using tradeLoop_step [of 1 config 0 "[c0, cBig, cDip]" LONG ?t0 189 ?l1] a
    by (simp add: H numeral_2_eq_2 t1_def)
  also have "\<dots> = Some (createTradeExit cDip (currentStopLoss t1) 2 (trailingHistory t1))"
    using tradeLoop_hit [of 2 config 0 "[c0, cBig, cDip]" LONG t1 189 ?l1]
    by (simp add: H t1s stopHit_def cDip_def)
  finally show ?thesis
    by (simp add: checkTradeOutcome_def entry189_def Let_def calculateTriggerLevels_0
        createTradeExit_def t1s)
qed

text \<open>
  In the first variant the inner loop is a \<open>while\<close>: a candle that does not hit the
  stop and reaches \<open>k\<close> consecutive pending triggers (and not the one after them)
  applies all \<open>k\<close> promotions, in order, before the next candle is read.
\<close>

lemma multi_trigger_promotion:
  assumes "i \<le> maxLookForwardCandles cfg"
    and "startIndex + i < length candles"
    and "\<not> stopHit sd (candles ! (startIndex + i)) (currentStopLoss st)"
    and "2 \<le> k"
    and "currentTriggerIndex st + k \<le> length levels"
    and "\<forall>j<k. crossed sd (candles ! (startIndex + i)) (levels ! (currentTriggerIndex st + j))"
    and "currentTriggerIndex st + k < length levels \<longrightarrow>
           \<not> crossed sd (candles ! (startIndex + i)) (levels ! (currentTriggerIndex st + k))"
  shows "tradeLoop cfg candles startIndex P sd levels i st =
     tradeLoop cfg candles startIndex P sd levels (Suc i)
       \<lparr>currentStopLoss = stopLoss (levels ! (currentTriggerIndex st + k - 1)),
        currentTriggerIndex = currentTriggerIndex st + k,
        trailingHistory = trailingHistory st @
          map (\<lambda>j. trailUpdate P sd (candles ! (startIndex + i))
                 (levels ! (currentTriggerIndex st + j))) [0 ..< k]\<rparr>"
proof -
  have k0: "k \<noteq> 0" using assms(4) by simp
  show ?thesis
    unfolding tradeLoop_step [OF assms(1-3)]
      applyTriggers_run [OF assms(5) assms(6) assms(7), of P]
    using k0 by simp
qed

lemma multi_trigger_promotion_example:
  "tradeLoop config [c0, cBig] 0 189 LONG (calculateTriggerLevels config 189 LONG 5) 1
      \<lparr>currentStopLoss = 179.55, currentTriggerIndex = 1, trailingHistory = []\<rparr> =
   tradeLoop config [c0, cBig] 0 189 LONG (calculateTriggerLevels config 189 LONG 5) 2
      \<lparr>currentStopLoss = stopLoss (calculateTriggerLevels config 189 LONG 5 ! 2),
       currentTriggerIndex = 3,
       trailingHistory =
         [trailUpdate 189 LONG cBig (calculateTriggerLevels config 189 LONG 5 ! 1),
          trailUpdate 189 LONG cBig (calculateTriggerLevels config 189 LONG 5 ! 2)]\<rparr>
   \<and> stopLoss (calculateTriggerLevels config 189 LONG 5 ! 2) = 198.45"
proof -
  let ?st = "\<lparr>currentStopLoss = 179.55, currentTriggerIndex = 1, trailingHistory = []\<rparr>"
  let ?lv = "calculateTriggerLevels config 189 LONG 5"
  have h1: "1 \<le> maxLookForwardCandles config" by (simp add: config_def)
  have h2: "0 + 1 < length [c0, cBig]" by simp
  have h3: "\<not> stopHit LONG ([c0, cBig] ! (0 + 1)) (currentStopLoss ?st)"
    by (simp add: stopHit_def cBig_def)
  have h4: "(2::nat) \<le> 2" by simp
  have h5: "currentTriggerIndex ?st + 2 \<le> length ?lv"
    by (simp add: length_calculateTriggerLevels config_def)
  have h6: "\<forall>j<2. crossed LONG ([c0, cBig] ! (0 + 1)) (?lv ! (currentTriggerIndex ?st + j))"
    by (simp add: less_Suc_eq numeral_2_eq_2 crossed_def cBig_def config_level nextLevel_def)
  have h7: "currentTriggerIndex ?st + 2 < length ?lv \<longrightarrow>
           \<not> crossed LONG ([c0, cBig] ! (0 + 1)) (?lv ! (currentTriggerIndex ?st + 2))"
    by (simp add: crossed_def cBig_def config_level nextLevel_def)
  have s: "stopLoss (?lv ! 2) = 198.45" by (simp add: config_level nextLevel_def)
  have "tradeLoop config [c0, cBig] 0 189 LONG ?lv 1 ?st =
      tradeLoop config [c0, cBig] 0 189 LONG ?lv 2
        \<lparr>currentStopLoss = stopLoss (?lv ! 2), currentTriggerIndex = 3,
         trailingHistory = [trailUpdate 189 LONG cBig (?lv ! 1),
                            trailUpdate 189 LONG cBig (?lv ! 2)]\<rparr>"
    using multi_trigger_promotion [OF h1 h2 h3 h4 h5 h6 h7, of 189]
    by (simp add: numeral_2_eq_2 numeral_3_eq_3)
  then show ?thesis using s by blast
qed

text \<open>
  C2. The second variant tests the next trigger with a single \<open>if\<close>. On the candle
  \<open>cBig\<close> (high 210, low 190) after a LONG entry at 189 with a 5 percent threshold,
  the stop 179.55 is not hit and the triggers 198.45 and 207.90 are both reached, yet
  the state after the candle has the stop of the first trigger only (189) and one
  trail event. On the following candle \<open>cDip\<close> (low 195) the first variant exits at
  198.45, while the second variant, its stop still at 189, does not exit at all.
\<close>

theorem second_variant_single_promotion:
  "\<not> stopHit LONG cBig 179.55
   \<and> crossed LONG cBig (calculateTriggerLevels2 189 LONG 5 ! 0)
   \<and> crossed LONG cBig (calculateTriggerLevels2 189 LONG 5 ! 1)
   \<and> applyTrigger2 189 LONG (calculateTriggerLevels2 189 LONG 5) cBig
        \<lparr>currentStopLoss = 179.55, currentTriggerIndex = 0,
         trailingHistory = [initialUpdate c0 179.55 189]\<rparr>
      = \<lparr>currentStopLoss = 189, currentTriggerIndex = 1,
         trailingHistory = [initialUpdate c0 179.55 189,
           trailUpdate2 189 LONG cBig (calculateTriggerLevels2 189 LONG 5 ! 0)]\<rparr>
   \<and> checkTradeOutcome2 config [c0, cBig, cDip] 0 entry189 = Inr None
   \<and> (\<exists>ex. checkTradeOutcome config [c0, cBig, cDip] 0 entry189 = Inr (Some ex)
          \<and> exit_price ex = 198.45 \<and> candles_until_exit ex = 2)"
proof -
  let ?l2 = "calculateTriggerLevels2 189 LONG 5"
  let ?s0 = "\<lparr>currentStopLoss = 179.55, currentTriggerIndex = 0,
         trailingHistory = [initialUpdate c0 179.55 189]\<rparr>"
  let ?s1 = "\<lparr>currentStopLoss = 189, currentTriggerIndex = 1,
         trailingHistory = [initialUpdate c0 179.55 189,
           trailUpdate2 189 LONG cBig (?l2 ! 0)]\<rparr>"
  have a: "\<not> stopHit LONG cBig 179.55" by (simp add: stopHit_def cBig_def)
  have b: "crossed LONG cBig (?l2 ! 0)"
    by (simp add: crossed_def cBig_def levels2_nth nextLevel2_def)
  have c: "crossed LONG cBig (?l2 ! 1)"
    by (simp add: crossed_def cBig_def levels2_nth nextLevel2_def)
  have d: "applyTrigger2 189 LONG ?l2 cBig ?s0 = ?s1"
    by (simp add: applyTrigger2_def length_levels2 levels2_nth nextLevel2_def cBig_def)
  have e: "applyTrigger2 189 LONG ?l2 cDip ?s1 = ?s1"
    by (simp add: applyTrigger2_def length_levels2 levels2_nth nextLevel2_def cDip_def)
  have H: "maxLookForwardCandles config = 720" by (simp add: config_def)
  have "tradeLoop2 config [c0, cBig, cDip] 0 189 LONG ?l2 1 ?s0
      = tradeLoop2 config [c0, cBig, cDip] 0 189 LONG ?l2 2 ?s1"
    using tradeLoop2_step [of 1 config 0 "[c0, cBig, cDip]" LONG ?s0 189 ?l2] a d
    by (simp add: H numeral_2_eq_2)
  also have "\<dots> = tradeLoop2 config [c0, cBig, cDip] 0 189 LONG ?l2 3 ?s1"
    using tradeLoop2_step [of 2 config 0 "[c0, cBig, cDip]" LONG ?s1 189 ?l2] e
    by (simp add: H numeral_3_eq_3 numeral_2_eq_2 stopHit_def cDip_def)
  also have "\<dots> = None"
    by (rule tradeLoop2_end) simp
  finally have f: "checkTradeOutcome2 config [c0, cBig, cDip] 0 entry189 = Inr None"
    by (simp add: checkTradeOutcome2_def entry189_def Let_def initialStop2_def)
  note g = sample_run_first_variant
  from a b c d f g show ?thesis by blast
qed

text \<open>
  C3. LONG entry at 189.00 with a dynamic threshold of 5 percent, default configuration:
  the ladder has delta 9.45, initial stop 179.55, trigger 1 at 198.45 with stop 189.00.
  A candle with high 199 and low 190 does not hit the stop and promotes the active stop
  to 189.00 (the simulation does not exit on it); the next candle, with low 188.00,
  exits at 189.00, and the profit of the trade is 0. The other fields of the candles
  are arbitrary.
\<close>

theorem scenario_long_189:
  "let levels = calculateTriggerLevels config 189 LONG 5;
       ca = \<lparr>openTime = ta, openPrice = oa, high = 199, low = 190, close = cla,
             volume = va, closeTime = cta\<rparr>;
       cb = \<lparr>openTime = tb, openPrice = ob, high = hb, low = 188, close = clb,
             volume = vb, closeTime = ctb\<rparr>;
       entry = \<lparr>e_price = 189, e_side = LONG, e_size = sz, e_dynamicThreshold = 5\<rparr>;
       st0 = \<lparr>currentStopLoss = 179.55, currentTriggerIndex = 1,
              trailingHistory = [initialUpdate ce 179.55 189]\<rparr>
   in trigger (levels ! 1) - trigger (levels ! 0) = 9.45
      \<and> stopLoss (levels ! 0) = 179.55
      \<and> trigger (levels ! 1) = 198.45
      \<and> stopLoss (levels ! 1) = 189
      \<and> \<not> stopHit LONG ca 179.55
      \<and> currentStopLoss (applyTriggers 189 LONG levels ca st0) = 189
      \<and> currentTriggerIndex (applyTriggers 189 LONG levels ca st0) = 2
      \<and> tradeLoop config [ce, ca] 0 189 LONG levels 1 st0 = None
      \<and> (\<exists>ex. checkTradeOutcome config [ce, ca, cb] 0 entry = Inr (Some ex)
             \<and> exit_price ex = 189 \<and> exit_time ex = tb \<and> candles_until_exit ex = 2
             \<and> fst (calculatePnL 189 (exit_price ex) LONG) = 0)"
proof -
  let ?lv = "calculateTriggerLevels config 189 LONG 5"
  let ?ca = "\<lparr>openTime = ta, openPrice = oa, high = 199, low = 190, close = cla,
             volume = va, closeTime = cta\<rparr>"
  let ?cb = "\<lparr>openTime = tb, openPrice = ob, high = hb, low = 188, close = clb,
             volume = vb, closeTime = ctb\<rparr>"
  let ?en = "\<lparr>e_price = 189, e_side = LONG, e_size = sz, e_dynamicThreshold = 5\<rparr>"
  let ?s0 = "\<lparr>currentStopLoss = 179.55, currentTriggerIndex = 1,
              trailingHistory = [initialUpdate ce 179.55 189]\<rparr>"
  have H: "maxLookForwardCandles config = 720" by (simp add: config_def)
  have l1: "trigger (?lv ! 1) - trigger (?lv ! 0) = 9.45"
    by (simp add: calculateTriggerLevels_0 config_level nextLevel_def)
  have l2: "stopLoss (?lv ! 0) = 179.55"
    by (simp add: calculateTriggerLevels_0)
  have l3: "trigger (?lv ! 1) = 198.45"
    by (simp add: config_level nextLevel_def)
  have l4: "stopLoss (?lv ! 1) = 189"
    by (simp add: config_level nextLevel_def)
  have nh: "\<not> stopHit LONG ?ca 179.55" by (simp add: stopHit_def)
  have g1: "currentTriggerIndex ?s0 + 1 \<le> length ?lv"
    by (simp add: length_calculateTriggerLevels config_def)
  have g2: "\<forall>j<1. crossed LONG ?ca (?lv ! (currentTriggerIndex ?s0 + j))"
    by (simp add: crossed_def config_level nextLevel_def)
  have g3: "currentTriggerIndex ?s0 + 1 < length ?lv \<longrightarrow>
           \<not> crossed LONG ?ca (?lv ! (currentTriggerIndex ?s0 + 1))"
    by (simp add: crossed_def config_level nextLevel_def)
  define s1 where "s1 = applyTriggers 189 LONG ?lv ?ca ?s0"
  have s1s: "currentStopLoss s1 = 189"
    unfolding s1_def applyTriggers_run [OF g1 g2 g3]
    by (simp add: config_level nextLevel_def)
  have s1i: "currentTriggerIndex s1 = 2"
    unfolding s1_def applyTriggers_run [OF g1 g2 g3] by simp
  have "tradeLoop config [ce, ?ca] 0 189 LONG ?lv 1 ?s0
      = tradeLoop config [ce, ?ca] 0 189 LONG ?lv 2 s1"
    using tradeLoop_step [of 1 config 0 "[ce, ?ca]" LONG ?s0 189 ?lv] nh
    by (simp add: H numeral_2_eq_2 s1_def)
  also have "\<dots> = None" by (rule tradeLoop_end) simp
  finally have ab: "tradeLoop config [ce, ?ca] 0 189 LONG ?lv 1 ?s0 = None" .
  have "tradeLoop config [ce, ?ca, ?cb] 0 189 LONG ?lv 1 ?s0
      = tradeLoop config [ce, ?ca, ?cb] 0 189 LONG ?lv 2 s1"
    using tradeLoop_step [of 1 config 0 "[ce, ?ca, ?cb]" LONG ?s0 189 ?lv] nh
    by (simp add: H numeral_2_eq_2 s1_def)
  also have "\<dots> = Some (createTradeExit ?cb (currentStopLoss s1) 2 (trailingHistory s1))"
    using tradeLoop_hit [of 2 config 0 "[ce, ?ca, ?cb]" LONG s1 189 ?lv]
    by (simp add: H s1s stopHit_def)
  finally have ex: "\<exists>ex. checkTradeOutcome config [ce, ?ca, ?cb] 0 ?en = Inr (Some ex)
             \<and> exit_price ex = 189 \<and> exit_time ex = tb \<and> candles_until_exit ex = 2
             \<and> fst (calculatePnL 189 (exit_price ex) LONG) = 0"
    by (simp add: checkTradeOutcome_def Let_def calculateTriggerLevels_0
        createTradeExit_def s1s calculatePnL_def)
  show ?thesis
    unfolding Let_def
    using l1 l2 l3 l4 nh s1s s1i ab ex unfolding s1_def by blast
qed

lemma ladderInv_promote:
  assumes "ladderInv sd levels st" and "currentTriggerIndex st < length levels"
  shows "ladderInv sd levels (promote P sd c (levels ! currentTriggerIndex st) st)"
proof -
  obtain k where k: "currentTriggerIndex st = Suc k"
    using assms(1) by (cases "currentTriggerIndex st") (auto simp: ladderInv_def)
  show ?thesis
    using assms k
    by (simp add: ladderInv_def promote_def trailUpdate_def replicate_append_same)
qed

lemma ladderInv_applyTriggers:
  "ladderInv sd levels st \<Longrightarrow> ladderInv sd levels (applyTriggers P sd levels c st)"
proof (induction P sd levels c st rule: applyTriggers.induct)
  case (1 P sd levels c st)
  show ?case
  proof (cases "currentTriggerIndex st < length levels \<and>
                crossed sd c (levels ! currentTriggerIndex st)")
    case True
    then have "ladderInv sd levels (promote P sd c (levels ! currentTriggerIndex st) st)"
      using "1.prems" ladderInv_promote by blast
    then have "ladderInv sd levels (applyTriggers P sd levels c
        (promote P sd c (levels ! currentTriggerIndex st) st))"
      using "1.IH" True by blast
    then show ?thesis
      using True by (subst applyTriggers.simps) simp
  next
    case False
    then show ?thesis
      using "1.prems" by (subst applyTriggers.simps) auto
  qed
qed

lemma tradeLoop_exit_inv:
  "ladderInv sd levels st \<Longrightarrow>
   tradeLoop cfg candles startIndex P sd levels i st = Some ex \<Longrightarrow>
   \<exists>st' c i'. ladderInv sd levels st' \<and>
     ex = createTradeExit c (currentStopLoss st') i' (trailingHistory st')"
proof (induction cfg candles startIndex P sd levels i st rule: tradeLoop.induct)
  case (1 cfg candles startIndex P sd levels i st)
  show ?case
  proof (cases "i \<le> maxLookForwardCandles cfg \<and> startIndex + i < length candles")
    case False
    then have "tradeLoop cfg candles startIndex P sd levels i st = None"
      by (intro tradeLoop_end) auto
    then show ?thesis using "1.prems"(2) by simp
  next
    case True
    show ?thesis
    proof (cases "stopHit sd (candles ! (startIndex + i)) (currentStopLoss st)")
      case hit: True
      have "ex = createTradeExit (candles ! (startIndex + i)) (currentStopLoss st) i
              (trailingHistory st)"
        using tradeLoop_hit [of i cfg startIndex candles sd st P levels] True hit "1.prems"(2)
        by simp
      then show ?thesis using "1.prems"(1) by blast
    next
      case nohit: False
      have "tradeLoop cfg candles startIndex P sd levels (Suc i)
              (applyTriggers P sd levels (candles ! (startIndex + i)) st) = Some ex"
        using tradeLoop_step [of i cfg startIndex candles sd st P levels] True nohit "1.prems"(2)
        by simp
      moreover have "ladderInv sd levels
          (applyTriggers P sd levels (candles ! (startIndex + i)) st)"
        using "1.prems"(1) by (rule ladderInv_applyTriggers)
      ultimately show ?thesis
        using "1.IH" True nohit by simp
    qed
  qed
qed




section \<open>The two ladders\<close>

lemma nextLevel_eq_nextLevel2:
  "nextLevel P sd (P * (t / 100)) i = nextLevel2 P sd (t / 100) i"
  by (simp add: nextLevel_def nextLevel2_def Let_def field_simps)

lemma take_upt_1: "take m [1 ..< Suc n] = [1 ..< Suc (min m n)]"
proof (cases "m \<le> n")
  case True
  then have "take m [1 ..< Suc n] = [1 ..< 1 + m]" by (intro take_upt) simp
  then show ?thesis using True by (simp add: min_def)
next
  case False
  then show ?thesis by (simp add: min_def)
qed

text \<open>
  C8. Under exact arithmetic the two ladder implementations agree: the levels
  \<open>1 .. 20\<close> of the first variant (its list carries the initial level at index 0)
  are the twenty levels of the second variant, as far as the first variant generates
  them; with the default \<open>maxTriggerLevels = 20\<close> the lists are equal. The initial
  stop of the first variant equals the one the second variant computes.
\<close>

theorem ladders_agree:
  "take 20 (tl (calculateTriggerLevels cfg P sd t))
     = take (maxTriggerLevels cfg) (calculateTriggerLevels2 P sd t)
   \<and> tl (calculateTriggerLevels config P sd t) = calculateTriggerLevels2 P sd t
   \<and> stopLoss (calculateTriggerLevels cfg P sd t ! 0) = initialStop2 P sd t"
proof (intro conjI)
  have f: "nextLevel P sd (P * (t / 100)) = nextLevel2 P sd (t / 100)"
    by (rule ext) (rule nextLevel_eq_nextLevel2)
  have u: "[1 ..< 21] = [1 ..< Suc 20]" by simp
  show "take 20 (tl (calculateTriggerLevels cfg P sd t))
     = take (maxTriggerLevels cfg) (calculateTriggerLevels2 P sd t)"
    unfolding calculateTriggerLevels_def calculateTriggerLevels2_def Let_def f u
    by (simp only: list.sel take_map take_upt_1 min.commute)
  show "tl (calculateTriggerLevels config P sd t) = calculateTriggerLevels2 P sd t"
    unfolding calculateTriggerLevels_def calculateTriggerLevels2_def Let_def f
    by (simp add: config_def)
  show "stopLoss (calculateTriggerLevels cfg P sd t ! 0) = initialStop2 P sd t"
    by (simp add: calculateTriggerLevels_0 initialStop2_def algebra_simps)
qed

section \<open>Properties of the entry resolver\<close>

lemma crossingLoop_hit:
  assumes "i \<le> maxLookForwardCandles cfg" and "startIndex + i < length candles"
    and "touches (candles ! (startIndex + i)) lc"
  shows "crossingLoop cfg candles startIndex lc i = crossingAt (candles ! (startIndex + i)) lc i"
  using assms by (subst crossingLoop.simps) (auto simp: crossingAt_def touches_def)

lemma crossingLoop_step:
  assumes "i \<le> maxLookForwardCandles cfg" and "startIndex + i < length candles"
    and "\<not> touches (candles ! (startIndex + i)) lc"
  shows "crossingLoop cfg candles startIndex lc i = crossingLoop cfg candles startIndex lc (Suc i)"
  using assms by (subst crossingLoop.simps) (auto simp: touches_def)

lemma crossingLoop_end:
  assumes "maxLookForwardCandles cfg < i \<or> length candles \<le> startIndex + i"
  shows "crossingLoop cfg candles startIndex lc i = noCrossing"
  using assms by (subst crossingLoop.simps) auto

lemma crossingLoop_first:
  assumes "i \<le> j" and "j \<le> maxLookForwardCandles cfg" and "startIndex + j < length candles"
    and "\<forall>m. i \<le> m \<and> m < j \<longrightarrow> \<not> touches (candles ! (startIndex + m)) lc"
    and "touches (candles ! (startIndex + j)) lc"
  shows "crossingLoop cfg candles startIndex lc i = crossingAt (candles ! (startIndex + j)) lc j"
  using assms(1,4)
proof (induction "j - i" arbitrary: i)
  case 0
  then have "i = j" by simp
  then show ?case using crossingLoop_hit assms(2,3,5) by simp
next
  case (Suc d)
  then have lt: "i < j" by simp
  have "crossingLoop cfg candles startIndex lc i = crossingLoop cfg candles startIndex lc (Suc i)"
    using lt assms(2,3) Suc.prems(2) by (intro crossingLoop_step) auto
  also have "\<dots> = crossingAt (candles ! (startIndex + j)) lc j"
    using Suc.hyps(2) lt Suc.prems(2) by (intro Suc.hyps(1)) auto
  finally show ?case .
qed

lemma crossingLoop_none:
  "\<forall>m. i \<le> m \<and> m \<le> maxLookForwardCandles cfg \<and> startIndex + m < length candles
       \<longrightarrow> \<not> touches (candles ! (startIndex + m)) lc \<Longrightarrow>
   crossingLoop cfg candles startIndex lc i = noCrossing"
proof (induction cfg candles startIndex lc i rule: crossingLoop.induct)
  case (1 cfg candles startIndex lc i)
  show ?case
  proof (cases "i \<le> maxLookForwardCandles cfg \<and> startIndex + i < length candles")
    case False
    then show ?thesis by (intro crossingLoop_end) auto
  next
    case True
    then have nt: "\<not> touches (candles ! (startIndex + i)) lc" using "1.prems" by simp
    have "crossingLoop cfg candles startIndex lc i = crossingLoop cfg candles startIndex lc (Suc i)"
      using True nt by (intro crossingLoop_step) auto
    also have "\<dots> = noCrossing"
      using True nt "1.prems" by (intro "1.IH") (auto simp: touches_def)
    finally show ?thesis .
  qed
qed

text \<open>
  The first variant returns the first crossing: when the candle at offset \<open>j\<close> is
  the earliest one in the horizon to touch a level, the result is LONG at the upward
  level if its high reaches that level (also when its low reaches the downward level
  too), else SHORT at the downward level; with no touching candle the result is NONE.
\<close>

lemma first_crossing_first_variant:
  assumes "1 \<le> j" and "j \<le> maxLookForwardCandles cfg" and "startIndex + j < length candles"
    and "\<forall>m. 1 \<le> m \<and> m < j \<longrightarrow> \<not> touches (candles ! (startIndex + m)) lc"
    and "touches (candles ! (startIndex + j)) lc"
  shows "checkThresholdCrossing cfg candles startIndex lc =
     (if high (candles ! (startIndex + j)) \<ge> upward_movementThreshold lc then
        \<lparr>direction = Some LONG, crossed_at = Some (openTime (candles ! (startIndex + j))),
         entry_price = upward_movementThreshold lc, candles_until_cross = j,
         entryCandleData = Some (candleDataOf (candles ! (startIndex + j)))\<rparr>
      else
        \<lparr>direction = Some SHORT, crossed_at = Some (openTime (candles ! (startIndex + j))),
         entry_price = downward_movementThreshold lc, candles_until_cross = j,
         entryCandleData = Some (candleDataOf (candles ! (startIndex + j)))\<rparr>)"
  unfolding checkThresholdCrossing_def
  using crossingLoop_first [OF assms] by (simp add: crossingAt_def)

lemma no_crossing_first_variant:
  assumes "\<forall>m. 1 \<le> m \<and> m \<le> maxLookForwardCandles cfg \<and> startIndex + m < length candles
       \<longrightarrow> \<not> touches (candles ! (startIndex + m)) lc"
  shows "checkThresholdCrossing cfg candles startIndex lc = noCrossing"
  unfolding checkThresholdCrossing_def using assms by (rule crossingLoop_none)

text \<open>
  C6. The second variant compares strictly. For the legend candle \<open>cOrigin\<close> (close
  180) with a 5 percent threshold the upward level is 189; the next candle
  \<open>cTouch\<close> has its high exactly at 189. The first variant enters LONG at 189 on
  that candle, the second variant reports no crossing.
\<close>

theorem second_variant_strict_crossing:
  "upward_movementThreshold (legendCandleOf cOrigin 5) = 189
   \<and> high cTouch = 189
   \<and> checkThresholdCrossing config [cOrigin, cTouch] 0 (legendCandleOf cOrigin 5) =
       \<lparr>direction = Some LONG, crossed_at = Some 60, entry_price = 189,
        candles_until_cross = 1, entryCandleData = Some (candleDataOf cTouch)\<rparr>
   \<and> checkThresholdCrossing2 [cOrigin, cTouch] 0 (legendCandleOf cOrigin 5) = noCrossing"
proof -
  let ?lc = "legendCandleOf cOrigin 5"
  have u: "upward_movementThreshold ?lc = 189" and d: "downward_movementThreshold ?lc = 171"
    by (simp_all add: legendCandleOf_def Let_def cOrigin_def)
  have h: "high cTouch = 189" and l: "low cTouch = 175" by (simp_all add: cTouch_def)
  have v1: "checkThresholdCrossing config [cOrigin, cTouch] 0 ?lc =
       \<lparr>direction = Some LONG, crossed_at = Some 60, entry_price = 189,
        candles_until_cross = 1, entryCandleData = Some (candleDataOf cTouch)\<rparr>"
    unfolding checkThresholdCrossing_def
    by (subst crossingLoop.simps) (simp add: config_def u h cTouch_def)
  have "crossingLoop2 2 [cOrigin, cTouch] 0 ?lc 1 = crossingLoop2 2 [cOrigin, cTouch] 0 ?lc 2"
    by (subst crossingLoop2.simps) (simp add: u d h l numeral_2_eq_2)
  also have "\<dots> = noCrossing"
    by (subst crossingLoop2.simps) simp
  finally have c2: "crossingLoop2 2 [cOrigin, cTouch] 0 ?lc 1 = noCrossing" .
  have m: "min 720 (length [cOrigin, cTouch] - 0) = (2::nat)" by simp
  have v2: "checkThresholdCrossing2 [cOrigin, cTouch] 0 ?lc = noCrossing"
    unfolding checkThresholdCrossing2_def m by (rule c2)
  show ?thesis using u h v1 v2 by blast
qed

section \<open>Properties of the per-candle pipeline\<close>

lemma detect_cLegend:
  "detect cfg3 cLegend [calm, calm, calm] =
     Inr \<lparr>currentDiff = 5, averageDiff = 1, dynamicThreshold = 2\<rparr>"
  by (simp add: detect_def sliceLast_def cfg3_def config_def Let_def
      previousDiffOf_def currentDiffOf_def js_div_def calm_def cLegend_def)

lemma cfg3_limits: "maxLookForwardCandles cfg3 = 720" "maxTriggerLevels cfg3 = 20"
  by (simp_all add: cfg3_def config_def)

lemma crossing_cLegend:
  "checkThresholdCrossing cfg3 [cLegend, cEnter, cHold] 0 (legendCandleOf cLegend 2) =
     \<lparr>direction = Some LONG, crossed_at = Some 120, entry_price = 107.1,
      candles_until_cross = 1,
      entryCandleData = Some (candleDataOf cEnter)\<rparr>"
  unfolding checkThresholdCrossing_def
  by (subst crossingLoop.simps)
     (simp add: cfg3_limits legendCandleOf_def Let_def cLegend_def cEnter_def)

lemma outcome_cLegend:
  "checkTradeOutcome cfg3 [cLegend, cEnter, cHold] 1
     \<lparr>e_price = 107.1, e_side = LONG, e_size = sz, e_dynamicThreshold = 2\<rparr> = Inr None"
proof -
  let ?lv = "calculateTriggerLevels cfg3 107.1 LONG 2"
  let ?s0 = "\<lparr>currentStopLoss = stopLoss (?lv ! 0), currentTriggerIndex = 1,
       trailingHistory = [initialUpdate cEnter (stopLoss (?lv ! 0)) 107.1]\<rparr>"
  have s: "stopLoss (?lv ! 0) = 104.958" by (simp add: calculateTriggerLevels_0)
  have nh: "\<not> stopHit LONG cHold (currentStopLoss ?s0)"
    by (simp add: s stopHit_def cHold_def)
  have nc: "\<not> crossed LONG cHold (?lv ! 1)"
    by (simp add: crossed_def cHold_def calculateTriggerLevels_nth cfg3_limits nextLevel_def)
  have ap: "applyTriggers 107.1 LONG ?lv cHold ?s0 = ?s0"
    using nc by (subst applyTriggers.simps) simp
  have "tradeLoop cfg3 [cLegend, cEnter, cHold] 1 107.1 LONG ?lv 1 ?s0
      = tradeLoop cfg3 [cLegend, cEnter, cHold] 1 107.1 LONG ?lv 2 ?s0"
    using tradeLoop_step [of 1 cfg3 1 "[cLegend, cEnter, cHold]" LONG ?s0 "107.1" ?lv] nh ap
    by (simp add: cfg3_limits numeral_2_eq_2)
  also have "\<dots> = None" by (rule tradeLoop_end) simp
  finally show ?thesis
    by (simp add: checkTradeOutcome_def Let_def)
qed
text \<open>
  C5. When a legend is found and an entry is resolved, but the simulation of the trade
  returns \<open>null\<close> (the horizon or the candle store is exhausted before the stop is
  hit), \<open>processCandle\<close> returns the run state it was given: no trade is stored, the
  balance is the same and the balance history has no new entry.
\<close>

theorem abandoned_trade_leaves_state:
  assumes "detect cfg currentCandle lookback = Inr d"
    and "dynamicThreshold d \<le> currentDiff d"
    and "checkThresholdCrossing cfg candles currentIndex
           (legendCandleOf currentCandle (dynamicThreshold d)) = crossing"
    and "direction crossing = Some sd"
    and "checkTradeOutcome cfg candles (currentIndex + candles_until_cross crossing)
           \<lparr>e_price = entry_price crossing, e_side = sd,
            e_size = calculateTradeSize st (entry_price crossing),
            e_dynamicThreshold = dynamicThreshold d\<rparr> = Inr None"
  shows "processCandle cfg candles st currentCandle lookback currentIndex = Inr st"
  using assms by (simp add: processCandle_def settleEntry_def Let_def)

theorem abandoned_trade_leaves_state_witness:
  "processCandle cfg3 [cLegend, cEnter, cHold] state0 cLegend [calm, calm, calm] 0 = Inr state0"
proof -
  let ?cr = "\<lparr>direction = Some LONG, crossed_at = Some 120, entry_price = 107.1,
      candles_until_cross = 1, entryCandleData = Some (candleDataOf cEnter)\<rparr>"
  let ?d = "\<lparr>currentDiff = 5, averageDiff = 1, dynamicThreshold = 2\<rparr>"
  have h2: "dynamicThreshold ?d \<le> currentDiff ?d" by simp
  have h3: "checkThresholdCrossing cfg3 [cLegend, cEnter, cHold] 0
           (legendCandleOf cLegend (dynamicThreshold ?d)) = ?cr"
    using crossing_cLegend by simp
  have h4: "direction ?cr = Some LONG" by simp
  have h5: "checkTradeOutcome cfg3 [cLegend, cEnter, cHold] (0 + candles_until_cross ?cr)
           \<lparr>e_price = entry_price ?cr, e_side = LONG,
            e_size = calculateTradeSize state0 (entry_price ?cr),
            e_dynamicThreshold = dynamicThreshold ?d\<rparr> = Inr None"
    using outcome_cLegend by simp
  show ?thesis
    by (rule abandoned_trade_leaves_state [OF detect_cLegend h2 h3 h4 h5])
qed

section \<open>Properties of binary64 rounding\<close>

text \<open>
  Rounding within one binade: if \<open>x\<close> scaled to a 53-bit significand is closer than
  one half to the integer \<open>m\<close>, or lies halfway above an even \<open>m\<close>, then
  \<open>fl64 x\<close> is the value with significand \<open>m\<close>.
\<close>

lemma rne_eqI:
  assumes "\<bar>x - of_int m\<bar> < 1 / 2"
  shows "rne x = m"
proof (cases "of_int m \<le> x")
  case True
  then have f: "\<lfloor>x\<rfloor> = m" using assms by (intro floor_unique) auto
  then have "frac x = x - of_int m" by (simp add: frac_def)
  then have "frac x < 1 / 2" using assms True by simp
  then show ?thesis by (simp add: rne_def f)
next
  case False
  then have f: "\<lfloor>x\<rfloor> = m - 1" using assms by (intro floor_unique) auto
  then have "frac x = x - of_int m + 1" by (simp add: frac_def)
  then have "1 / 2 < frac x" using assms False by simp
  then show ?thesis by (simp add: rne_def f)
qed

lemma fl64_binade:
  assumes "power_int 2 e \<le> \<bar>x\<bar>" and "\<bar>x\<bar> < power_int 2 (e + 1)" and "- 1022 \<le> e"
  shows "fl64 x = of_int (rne (x / power_int 2 (e - 52))) * power_int 2 (e - 52)"
proof -
  have "(0::real) < power_int 2 e" by simp
  then have pos: "0 < \<bar>x\<bar>" using assms(1) by linarith
  then have x0: "x \<noteq> 0" by simp
  have a: "2 powr of_int e \<le> \<bar>x\<bar>"
    using assms(1) by (simp add: powr_real_of_int')
  have "2 powr (of_int (e + 1)) = (power_int 2 (e + 1) :: real)"
    by (rule powr_real_of_int') simp_all
  then have b: "\<bar>x\<bar> < 2 powr (of_int e + 1)"
    using assms(2) by simp
  have "\<lfloor>log 2 \<bar>x\<bar>\<rfloor> = e"
    using a b pos by (subst floor_log_eq_powr_iff) simp_all
  then show ?thesis using assms(3) x0 by (simp add: fl64_def Let_def max_def)
qed

lemma fl64_ge1:
  assumes "2 ^ n \<le> \<bar>x\<bar>" and "\<bar>x\<bar> < 2 * 2 ^ n"
    and "\<bar>x * 2 ^ 52 / 2 ^ n - of_int m\<bar> < 1 / 2"
  shows "fl64 x = of_int m * 2 ^ n / 2 ^ 52"
proof -
  have u: "power_int 2 (int n - 52) = (2::real) ^ n / 2 ^ 52"
    by (simp add: power_int_diff)
  have q: "power_int 2 (int n + 1) = (2::real) * 2 ^ n"
    by (simp add: power_int_add)
  have "fl64 x = of_int (rne (x / power_int 2 (int n - 52))) * power_int 2 (int n - 52)"
    by (rule fl64_binade) (use assms(1,2) in \<open>simp_all add: q\<close>)
  moreover have "rne (x / (2 ^ n / 2 ^ 52)) = m"
    by (rule rne_eqI) (use assms(3) in \<open>simp add: field_simps\<close>)
  ultimately show ?thesis by (simp add: u)
qed

lemma fl64_lt1:
  assumes "1 \<le> \<bar>x\<bar> * (2 * 2 ^ n)" and "\<bar>x\<bar> * 2 ^ n < 1" and "n \<le> 1021"
    and "\<bar>x * (2 ^ 53 * 2 ^ n) - of_int m\<bar> < 1 / 2"
  shows "fl64 x = of_int m / (2 ^ 53 * 2 ^ n)"
proof -
  have p: "power_int 2 (- int (Suc n)) = 1 / ((2::real) * 2 ^ n)"
  proof -
    have "power_int 2 (- int (Suc n)) = inverse ((2::real) ^ Suc n)"
      by (simp only: power_int_minus power_int_of_nat)
    then show ?thesis by (simp add: field_simps)
  qed
  have q: "power_int 2 (- int (Suc n) + 1) = 1 / (2::real) ^ n"
  proof -
    have "- int (Suc n) + 1 = - int n" by simp
    then have "power_int 2 (- int (Suc n) + 1) = inverse ((2::real) ^ n)"
      by (simp only: power_int_minus power_int_of_nat)
    then show ?thesis by (simp add: field_simps)
  qed
  have u: "power_int 2 (- int (Suc n) - 52) = 1 / ((2::real) ^ 53 * 2 ^ n)"
  proof -
    have "- int (Suc n) - 52 = - int (53 + n)" by simp
    then have "power_int 2 (- int (Suc n) - 52) = inverse ((2::real) ^ (53 + n))"
      by (simp only: power_int_minus power_int_of_nat)
    then show ?thesis by (simp add: power_add field_simps)
  qed
  have "fl64 x = of_int (rne (x / power_int 2 (- int (Suc n) - 52)))
           * power_int 2 (- int (Suc n) - 52)"
  proof (rule fl64_binade)
    show "power_int 2 (- int (Suc n)) \<le> \<bar>x\<bar>"
      unfolding p using assms(1) by (simp add: field_simps)
    show "\<bar>x\<bar> < power_int 2 (- int (Suc n) + 1)"
      unfolding q using assms(2) by (simp add: field_simps)
    show "- 1022 \<le> - int (Suc n)" using assms(3) by simp
  qed
  moreover have "rne (x / (1 / (2 ^ 53 * 2 ^ n))) = m"
    by (rule rne_eqI) (use assms(4) in simp)
  ultimately show ?thesis unfolding u by simp
qed



text \<open>With the identity as rounding, the rounded definitions are the exact ones.\<close>

lemma nextLevelR_exact: "nextLevelR (\<lambda>x. x) = nextLevel"
  by (intro ext) (simp add: nextLevelR_def nextLevel_def)

lemma calculateTriggerLevelsR_exact: "calculateTriggerLevelsR (\<lambda>x. x) = calculateTriggerLevels"
  by (intro ext) (simp add: calculateTriggerLevelsR_def calculateTriggerLevels_def nextLevelR_exact)

lemma promoteR_exact: "promoteR (\<lambda>x. x) = promote"
  by (intro ext) (simp add: promoteR_def promote_def trailUpdateR_def trailUpdate_def)

lemma applyTriggersR_exact:
  "applyTriggersR (\<lambda>x. x) P sd levels c st = applyTriggers P sd levels c st"
proof (induction P sd levels c st rule: applyTriggers.induct)
  case (1 P sd levels c st)
  show ?case
    by (subst applyTriggersR.simps, subst applyTriggers.simps)
       (simp add: "1.IH" promoteR_exact)
qed

lemma tradeLoopR_exact:
  "tradeLoopR (\<lambda>x. x) cfg candles startIndex P sd levels i st =
     tradeLoop cfg candles startIndex P sd levels i st"
proof (induction cfg candles startIndex P sd levels i st rule: tradeLoop.induct)
  case (1 cfg candles startIndex P sd levels i st)
  show ?case
    by (subst tradeLoopR.simps, subst tradeLoop.simps)
       (simp add: "1.IH" applyTriggersR_exact)
qed

lemma checkTradeOutcomeR_exact: "checkTradeOutcomeR (\<lambda>x. x) = checkTradeOutcome"
  by (intro ext)
     (simp add: checkTradeOutcomeR_def checkTradeOutcome_def calculateTriggerLevelsR_exact
        tradeLoopR_exact Let_def)

text \<open>
  The operations of \<open>calculateTriggerLevels\<close> for a LONG entry at 189 with a dynamic
  threshold of 5, rounded one by one. The fractions are binary64 values written
  exactly: \<open>5319877059831399 / 562949953421312\<close> is 9.450000000000001,
  \<open>3158677004274893 / 17592186044416\<close> is 179.55,
  \<open>3491169320514355 / 17592186044416\<close> is 198.45,
  \<open>7314830957268173 / 35184372088832\<close> is 207.9 and
  \<open>6982338641028711 / 35184372088832\<close> is 198.45000000000002.
\<close>

lemma r_q: "fl64 (5 / 100) = 3602879701896397 / 72057594037927936"
  using fl64_lt1 [of "5 / 100" 4 "3602879701896397 * 2"] by simp

lemma r_tv: "fl64 (189 * (3602879701896397 / 72057594037927936))
    = 5319877059831399 / 562949953421312"
  using fl64_ge1 [of 3 "189 * (3602879701896397 / 72057594037927936)" 5319877059831399]
  by simp

lemma r_tv1: "fl64 (5319877059831399 / 562949953421312) = 5319877059831399 / 562949953421312"
  using fl64_ge1 [of 3 "5319877059831399 / 562949953421312" 5319877059831399] by simp

lemma r_tv2: "fl64 (5319877059831399 / 562949953421312 * 2) = 5319877059831399 / 281474976710656"
  using fl64_ge1 [of 4 "5319877059831399 / 562949953421312 * 2" 5319877059831399] by simp



lemma r_t1: "fl64 (189 + 5319877059831399 / 562949953421312) = 3491169320514355 / 17592186044416"
  using fl64_ge1 [of 7 "189 + 5319877059831399 / 562949953421312" 6982338641028710] by simp

lemma r_s1: "fl64 (3491169320514355 / 17592186044416 - 5319877059831399 / 562949953421312) = 189"
  using fl64_ge1 [of 7 "3491169320514355 / 17592186044416 - 5319877059831399 / 562949953421312"
      6649846324789248] by simp

lemma r_t2: "fl64 (189 + 5319877059831399 / 281474976710656) = 7314830957268173 / 35184372088832"
  using fl64_ge1 [of 7 "189 + 5319877059831399 / 281474976710656" 7314830957268173] by simp

lemma r_s2: "fl64 (7314830957268173 / 35184372088832 - 5319877059831399 / 562949953421312)
    = 6982338641028711 / 35184372088832"
  using fl64_ge1 [of 7 "7314830957268173 / 35184372088832 - 5319877059831399 / 562949953421312"
      6982338641028711] by simp




lemma calculateTriggerLevelsR_nth:
  assumes "1 \<le> j" and "j \<le> maxTriggerLevels cfg"
  shows "calculateTriggerLevelsR rnd cfg P sd t ! j =
     nextLevelR rnd P sd (rnd (P * rnd (t / 100))) j"
proof -
  obtain k where k: "j = Suc k" using assms(1) by (cases j) auto
  have "k < length [1 ..< Suc (maxTriggerLevels cfg)]" using assms(2) k by simp
  then have "map (nextLevelR rnd P sd (rnd (P * rnd (t / 100))))
        [1 ..< Suc (maxTriggerLevels cfg)] ! k
      = nextLevelR rnd P sd (rnd (P * rnd (t / 100))) ([1 ..< Suc (maxTriggerLevels cfg)] ! k)"
    by (rule nth_map)
  also have "[1 ..< Suc (maxTriggerLevels cfg)] ! k = 1 + k"
    by (rule nth_upt) (use assms(2) k in simp)
  finally show ?thesis by (simp add: calculateTriggerLevelsR_def Let_def k)
qed

lemma ladder64_level:
  assumes "1 \<le> j" and "j \<le> 20"
  shows "calculateTriggerLevelsR fl64 config 189 LONG 5 ! j =
     nextLevelR fl64 189 LONG (5319877059831399 / 562949953421312) j"
proof -
  have "calculateTriggerLevelsR fl64 config 189 LONG 5 ! j =
     nextLevelR fl64 189 LONG (fl64 (189 * fl64 (5 / 100))) j"
    by (rule calculateTriggerLevelsR_nth) (use assms in \<open>simp_all add: config_def\<close>)
  then show ?thesis by (simp only: r_q r_tv)
qed


lemma ladder64_1:
  "trigger (calculateTriggerLevelsR fl64 config 189 LONG 5 ! 1) = 3491169320514355 / 17592186044416"
  "stopLoss (calculateTriggerLevelsR fl64 config 189 LONG 5 ! 1) = 189"
proof -
  have e: "calculateTriggerLevelsR fl64 config 189 LONG 5 ! 1 =
     nextLevelR fl64 189 LONG (5319877059831399 / 562949953421312) 1"
    by (rule ladder64_level) simp_all
  show "trigger (calculateTriggerLevelsR fl64 config 189 LONG 5 ! 1)
      = 3491169320514355 / 17592186044416"
    by (simp only: e nextLevelR_def Let_def simp_thms if_True TriggerLevel.simps
        of_nat_1 mult_1_right r_tv1 r_t1 r_s1)
  show "stopLoss (calculateTriggerLevelsR fl64 config 189 LONG 5 ! 1) = 189"
    by (simp only: e nextLevelR_def Let_def simp_thms if_True TriggerLevel.simps
        of_nat_1 mult_1_right r_tv1 r_t1 r_s1)
qed

lemma ladder64_2:
  "trigger (calculateTriggerLevelsR fl64 config 189 LONG 5 ! 2) = 7314830957268173 / 35184372088832"
  "stopLoss (calculateTriggerLevelsR fl64 config 189 LONG 5 ! 2) = 6982338641028711 / 35184372088832"
proof -
  have e: "calculateTriggerLevelsR fl64 config 189 LONG 5 ! 2 =
     nextLevelR fl64 189 LONG (5319877059831399 / 562949953421312) 2"
    by (rule ladder64_level) simp_all
  show "trigger (calculateTriggerLevelsR fl64 config 189 LONG 5 ! 2)
      = 7314830957268173 / 35184372088832"
    by (simp only: e nextLevelR_def Let_def simp_thms if_True TriggerLevel.simps
        of_nat_numeral r_tv2 r_t2 r_s2)
  show "stopLoss (calculateTriggerLevelsR fl64 config 189 LONG 5 ! 2)
      = 6982338641028711 / 35184372088832"
    by (simp only: e nextLevelR_def Let_def simp_thms if_True TriggerLevel.simps
        of_nat_numeral r_tv2 r_t2 r_s2)
qed







section \<open>Ladder symmetry\<close>

text \<open>
  C7, as stated, fails in the arithmetic the code runs on. For a LONG entry at 189 with a
  dynamic threshold of 5 the code computes \<open>thresholdValue = 9.450000000000001\<close>,
  \<open>trigger_1 = 198.45\<close> and \<open>stop_2 = 198.45000000000002\<close>: \<open>stop_2\<close> is not
  \<open>trigger_1\<close>, and \<open>trigger_2 - trigger_1\<close> is neither \<open>189 * 5 / 100\<close> nor the
  computed \<open>thresholdValue\<close>.
\<close>

theorem ladder_symmetry_fails_in_binary64:
  "stopLoss (calculateTriggerLevelsR fl64 config 189 LONG 5 ! 2)
     = 6982338641028711 / 35184372088832
   \<and> trigger (calculateTriggerLevelsR fl64 config 189 LONG 5 ! 1)
     = 3491169320514355 / 17592186044416
   \<and> stopLoss (calculateTriggerLevelsR fl64 config 189 LONG 5 ! 2)
     \<noteq> trigger (calculateTriggerLevelsR fl64 config 189 LONG 5 ! 1)
   \<and> trigger (calculateTriggerLevelsR fl64 config 189 LONG 5 ! 2)
       - trigger (calculateTriggerLevelsR fl64 config 189 LONG 5 ! 1) \<noteq> 189 * 5 / 100
   \<and> trigger (calculateTriggerLevelsR fl64 config 189 LONG 5 ! 2)
       - trigger (calculateTriggerLevelsR fl64 config 189 LONG 5 ! 1)
     \<noteq> fl64 (189 * fl64 (5 / 100))"
  unfolding ladder64_1 ladder64_2 r_q r_tv by simp

text \<open>
  C7, amended: under exact arithmetic, in the ladder of the first variant \<open>trigger_0\<close>
  is the entry price, and every level \<open>j \<ge> 1\<close> has its stop at the previous trigger
  and its trigger exactly \<open>delta = P * dynamicThreshold / 100\<close> beyond the previous
  trigger: above it for LONG, below it for SHORT.
\<close>

theorem trigger_ladder_symmetry:
  assumes "1 \<le> j" and "j \<le> maxTriggerLevels cfg"
  shows "trigger (calculateTriggerLevels cfg P sd t ! 0) = P
       \<and> stopLoss (calculateTriggerLevels cfg P sd t ! j)
           = trigger (calculateTriggerLevels cfg P sd t ! (j - 1))
       \<and> trigger (calculateTriggerLevels cfg P LONG t ! j)
           - trigger (calculateTriggerLevels cfg P LONG t ! (j - 1)) = P * t / 100
       \<and> trigger (calculateTriggerLevels cfg P SHORT t ! (j - 1))
           - trigger (calculateTriggerLevels cfg P SHORT t ! j) = P * t / 100"
proof -
  have j1: "j - 1 \<le> maxTriggerLevels cfg" using assms(2) by simp
  have r: "real (j - Suc 0) = real j - 1" using assms(1) by (simp add: of_nat_diff)
  show ?thesis
    using assms(2) j1 by (simp add: calculateTriggerLevels_0 trigger_nth stopLoss_nth r field_simps)
qed

theorem trigger_ladder_symmetry_witness:
  "(1::nat) \<le> 2 \<and> 2 \<le> maxTriggerLevels config
       \<and> trigger (calculateTriggerLevels config 189 LONG 5 ! 0) = 189
       \<and> stopLoss (calculateTriggerLevels config 189 LONG 5 ! 2)
           = trigger (calculateTriggerLevels config 189 LONG 5 ! (2 - 1))
       \<and> trigger (calculateTriggerLevels config 189 LONG 5 ! 2)
           - trigger (calculateTriggerLevels config 189 LONG 5 ! (2 - 1)) = 189 * 5 / 100
       \<and> trigger (calculateTriggerLevels config 189 SHORT 5 ! (2 - 1))
           - trigger (calculateTriggerLevels config 189 SHORT 5 ! 2) = 189 * 5 / 100"
proof -
  have a: "(1::nat) \<le> 2" by simp
  have b: "(2::nat) \<le> maxTriggerLevels config" by (simp add: config_def)
  show ?thesis using trigger_ladder_symmetry [OF a b, of 189 LONG 5] a b by simp
qed

section \<open>Monotone stops\<close>










section \<open>Properties of the legend detector\<close>

text \<open>
  On a window that is not empty and has no candle with a zero open, every movement is
  finite and the test compares \<open>currentDiff\<close> with
  \<open>threshold * finiteAverage\<close>.
\<close>

lemma foldl_jadd_Fin: "foldl jadd (Fin a) (map Fin xs) = Fin (a + sum_list xs)"
  by (induction xs arbitrary: a) (simp_all add: algebra_simps)

lemma math_mean_Fin:
  "xs \<noteq> [] \<Longrightarrow> math_mean (map Fin xs) = Inr (Fin (sum_list xs / real (length xs)))"
  by (cases xs) (simp_all add: math_mean_def foldl_jadd_Fin)

lemma previousDiffJ_Fin:
  "openPrice c \<noteq> 0 \<Longrightarrow>
   previousDiffJ c = Fin (\<bar>(close c - openPrice c) / openPrice c\<bar> * 100)"
  by (simp add: previousDiffJ_def)

lemma currentDiffJ_Fin:
  "openPrice c \<noteq> 0 \<Longrightarrow>
   currentDiffJ c = Fin (\<bar>close c - openPrice c\<bar> / openPrice c * 100)"
  by (simp add: currentDiffJ_def)

lemma currentDiffJ_zero_open:
  "openPrice c = 0 \<Longrightarrow> currentDiffJ c = (if close c = 0 then NaN else Infty True)"
  by (simp add: currentDiffJ_def)

lemma sliceLast_nonempty: "lb \<noteq> [] \<Longrightarrow> sliceLast n lb \<noteq> []"
  by (cases lb) (auto simp: sliceLast_def)


lemma window_nonempty:
  assumes "lookbackCandles cfg + 10 \<le> i" and "i < length candles"
  shows "slice (i - (lookbackCandles cfg + 10)) i candles \<noteq> []"
proof -
  have "length (slice (i - (lookbackCandles cfg + 10)) i candles) = lookbackCandles cfg + 10"
    using assms by (simp add: slice_def)
  then show ?thesis by auto
qed



lemma legendTest_finite_window:
  assumes "sliceLast (lookbackCandles cfg) lb \<noteq> []"
    and "\<forall>w \<in> set (sliceLast (lookbackCandles cfg) lb). openPrice w \<noteq> 0"
  shows "legendTest (cfg\<lparr>threshold := k\<rparr>) c lb =
     Inr \<lparr>lt_currentDiff = currentDiffJ c,
          lt_averageDiff = Fin (finiteAverage (sliceLast (lookbackCandles cfg) lb)),
          lt_dynamicThreshold =
            Fin (k * finiteAverage (sliceLast (lookbackCandles cfg) lb))\<rparr>"
proof -
  let ?w = "sliceLast (lookbackCandles cfg) lb"
  let ?ds = "map (\<lambda>c. \<bar>(close c - openPrice c) / openPrice c\<bar> * 100) ?w"
  have m: "map previousDiffJ ?w = map Fin ?ds"
    using assms(2) by (simp add: previousDiffJ_Fin)
  have ne: "?ds \<noteq> []" using assms(1) by simp
  have "math_mean (map previousDiffJ ?w) = Inr (Fin (sum_list ?ds / real (length ?ds)))"
    unfolding m by (rule math_mean_Fin [OF ne])
  then have mm: "math_mean (map previousDiffJ ?w) = Inr (Fin (finiteAverage ?w))"
    by (simp add: finiteAverage_def)
  have "legendTest (cfg\<lparr>threshold := k\<rparr>) c lb =
       (case math_mean (map previousDiffJ ?w) of
          Inl f \<Rightarrow> Inl f
        | Inr avg \<Rightarrow> Inr \<lparr>lt_currentDiff = currentDiffJ c, lt_averageDiff = avg,
                          lt_dynamicThreshold = jmul (Fin k) avg\<rparr>)"
    by (simp add: legendTest_def Let_def split: sum.splits)
  also have "\<dots> = Inr \<lparr>lt_currentDiff = currentDiffJ c,
          lt_averageDiff = Fin (finiteAverage ?w),
          lt_dynamicThreshold = Fin (k * finiteAverage ?w)\<rparr>"
    unfolding mm by simp
  finally show ?thesis .
qed




text \<open>
  Wherever the real-valued \<open>detect\<close> returns a detection, \<open>legendTest\<close> returns
  the same numbers; and the average is 0 exactly when the window is not empty and each
  of its candles has \<open>open = close\<close> and a nonzero open.
\<close>

lemma those_previousDiffs:
  "those (map previousDiffOf ws) = Some ds \<Longrightarrow> map previousDiffJ ws = map Fin ds"
proof (induction ws arbitrary: ds)
  case Nil
  then show ?case by simp
next
  case (Cons w ws)
  then show ?case
    by (auto simp: previousDiffOf_def previousDiffJ_def js_div_def
        split: option.splits if_splits)
qed

lemma detect_legendTest:
  assumes "detect cfg c lb = Inr d"
  shows "legendTest cfg c lb =
     Inr \<lparr>lt_currentDiff = Fin (currentDiff d), lt_averageDiff = Fin (averageDiff d),
          lt_dynamicThreshold = Fin (dynamicThreshold d)\<rparr>"
proof -
  let ?w = "sliceLast (lookbackCandles cfg) lb"
  from assms obtain cd ds where ne: "?w \<noteq> []"
    and cd: "currentDiffOf c = Some cd" and ds: "those (map previousDiffOf ?w) = Some ds"
    and d: "d = \<lparr>currentDiff = cd, averageDiff = sum_list ds / real (length ds),
              dynamicThreshold = threshold cfg * (sum_list ds / real (length ds))\<rparr>"
    by (auto simp: detect_def Let_def split: if_splits option.splits)
  have m: "map previousDiffJ ?w = map Fin ds" by (rule those_previousDiffs [OF ds])
  then have "length ?w = length ds" by (rule map_eq_imp_length_eq)
  then have dne: "ds \<noteq> []" using ne by auto
  have mm: "math_mean (map previousDiffJ ?w) = Inr (Fin (sum_list ds / real (length ds)))"
    unfolding m by (rule math_mean_Fin [OF dne])
  have c: "currentDiffJ c = Fin cd"
    using cd by (auto simp: currentDiffOf_def currentDiffJ_def js_div_def split: if_splits)
  show ?thesis
    by (simp add: legendTest_def Let_def mm c d)
qed

lemma detect_isLegend:
  assumes "detect cfg c lb = Inr d"
  shows "isLegend cfg c lb = Inr (dynamicThreshold d \<le> currentDiff d)"
  by (simp add: isLegend_def detect_legendTest [OF assms])

lemma jadd_Fin_D: "jadd x y = Fin s \<Longrightarrow> (\<exists>a. x = Fin a) \<and> (\<exists>b. y = Fin b)"
  by (cases x; cases y) (auto split: if_splits)

lemma foldl_jadd_Fin_D:
  "foldl jadd x xs = Fin s \<Longrightarrow> (\<exists>a. x = Fin a) \<and> (\<forall>y \<in> set xs. \<exists>b. y = Fin b)"
proof (induction xs arbitrary: x)
  case Nil
  then show ?case by simp
next
  case (Cons y ys)
  from Cons.prems have f: "foldl jadd (jadd x y) ys = Fin s" by simp
  from Cons.IH [OF f] obtain a where a: "jadd x y = Fin a"
    and r: "\<forall>z \<in> set ys. \<exists>b. z = Fin b" by auto
  from jadd_Fin_D [OF a] show ?case using r by auto
qed

lemma jdiv_Fin_D: "jdiv x (Fin n) = Fin r \<Longrightarrow> \<exists>a. x = Fin a"
  by (cases x) (auto split: if_splits)

lemma math_mean_Fin_D:
  assumes "math_mean xs = Inr (Fin r)"
  shows "xs \<noteq> [] \<and> (\<forall>y \<in> set xs. \<exists>b. y = Fin b)"
proof (cases xs)
  case Nil
  then show ?thesis using assms by (simp add: math_mean_def)
next
  case (Cons x rest)
  then have "jdiv (foldl jadd x rest) (Fin (real (length xs))) = Fin r"
    using assms by (simp add: math_mean_def)
  from jdiv_Fin_D [OF this] obtain a where "foldl jadd x rest = Fin a" by auto
  from foldl_jadd_Fin_D [OF this] show ?thesis using Cons by auto
qed

lemma previousDiffJ_Fin_D: "previousDiffJ w = Fin b \<Longrightarrow> openPrice w \<noteq> 0"
  by (auto simp: previousDiffJ_def split: if_splits)

lemma finiteAverage_flat:
  assumes "\<forall>w \<in> set ws. close w = openPrice w"
  shows "finiteAverage ws = 0"
proof -
  define f where "f = (\<lambda>c::Candle. \<bar>(close c - openPrice c) / openPrice c\<bar> * 100)"
  have "f w = 0" if "w \<in> set ws" for w
    using assms that by (simp add: f_def)
  then have e: "map f ws = map (\<lambda>c. 0) ws" by (intro map_cong) simp_all
  have "sum_list (map f ws) = 0" unfolding e by simp
  then show ?thesis unfolding finiteAverage_def f_def [symmetric] by simp
qed

lemma finiteAverage_zero_D:
  assumes "finiteAverage ws = 0" and "\<forall>w \<in> set ws. openPrice w \<noteq> 0" and "w \<in> set ws"
  shows "close w = openPrice w"
proof -
  define f where "f = (\<lambda>c::Candle. \<bar>(close c - openPrice c) / openPrice c\<bar> * 100)"
  have ne: "ws \<noteq> []" using assms(3) by auto
  have "sum_list (map f ws) / real (length ws) = 0"
    using assms(1) unfolding finiteAverage_def f_def [symmetric] .
  then have s0: "sum_list (map f ws) = 0" using ne by simp
  have nn: "0 \<le> x" if "x \<in> set (map f ws)" for x using that by (auto simp: f_def)
  have z: "\<forall>x \<in> set (map f ws). x = 0"
    by (rule iffD1 [OF sum_list_nonneg_eq_0_iff [OF nn] s0])
  have "f w \<in> set (map f ws)" using assms(3) by simp
  then have "f w = 0" using z by blast
  then have "(close w - openPrice w) / openPrice w = 0" by (simp add: f_def)
  moreover have "openPrice w \<noteq> 0" using assms(2,3) by blast
  ultimately show ?thesis by simp
qed

lemma legendTest_flat_window:
  assumes "lb \<noteq> []"
    and "\<forall>w \<in> set (sliceLast (lookbackCandles cfg) lb).
           close w = openPrice w \<and> openPrice w \<noteq> 0"
  shows "legendTest cfg c lb =
     Inr \<lparr>lt_currentDiff = currentDiffJ c, lt_averageDiff = Fin 0,
          lt_dynamicThreshold = Fin 0\<rparr>"
proof -
  let ?w = "sliceLast (lookbackCandles cfg) lb"
  have ne: "?w \<noteq> []" by (rule sliceLast_nonempty [OF assms(1)])
  have o: "\<forall>w \<in> set ?w. openPrice w \<noteq> 0" using assms(2) by simp
  have f: "\<forall>w \<in> set ?w. close w = openPrice w" using assms(2) by simp
  have z: "finiteAverage ?w = 0" by (rule finiteAverage_flat [OF f])
  have c: "cfg\<lparr>threshold := threshold cfg\<rparr> = cfg" by simp
  show ?thesis
    using legendTest_finite_window [OF ne o, of "threshold cfg" c] unfolding c z by simp
qed

lemma averageDiff_zero_iff:
  "(\<exists>d. legendTest cfg c lb = Inr d \<and> lt_averageDiff d = Fin 0) \<longleftrightarrow>
   lb \<noteq> [] \<and> (\<forall>w \<in> set (sliceLast (lookbackCandles cfg) lb).
                 close w = openPrice w \<and> openPrice w \<noteq> 0)"
proof
  assume "lb \<noteq> [] \<and> (\<forall>w \<in> set (sliceLast (lookbackCandles cfg) lb).
                 close w = openPrice w \<and> openPrice w \<noteq> 0)"
  then have a: "lb \<noteq> []" and b: "\<forall>w \<in> set (sliceLast (lookbackCandles cfg) lb).
                 close w = openPrice w \<and> openPrice w \<noteq> 0" by simp_all
  show "\<exists>d. legendTest cfg c lb = Inr d \<and> lt_averageDiff d = Fin 0"
    unfolding legendTest_flat_window [OF a b] by simp
next
  let ?w = "sliceLast (lookbackCandles cfg) lb"
  assume "\<exists>d. legendTest cfg c lb = Inr d \<and> lt_averageDiff d = Fin 0"
  then obtain d where d: "legendTest cfg c lb = Inr d" and z: "lt_averageDiff d = Fin 0"
    by auto
  have mm: "math_mean (map previousDiffJ ?w) = Inr (Fin 0)"
    using d z by (auto simp: legendTest_def Let_def split: sum.splits)
  from math_mean_Fin_D [OF mm] have ne: "?w \<noteq> []"
    and fin: "\<forall>y \<in> set (map previousDiffJ ?w). \<exists>b. y = Fin b" by simp_all
  have o: "\<forall>w \<in> set ?w. openPrice w \<noteq> 0"
  proof
    fix w assume "w \<in> set ?w"
    then have "previousDiffJ w \<in> set (map previousDiffJ ?w)" by simp
    then obtain b where "previousDiffJ w = Fin b" using fin by blast
    then show "openPrice w \<noteq> 0" by (rule previousDiffJ_Fin_D)
  qed
  have c: "cfg\<lparr>threshold := threshold cfg\<rparr> = cfg" by simp
  have "lt_averageDiff d = Fin (finiteAverage ?w)"
    using legendTest_finite_window [OF ne o, of "threshold cfg" c] d unfolding c by simp
  then have fz: "finiteAverage ?w = 0" using z by simp
  have "\<forall>w \<in> set ?w. close w = openPrice w \<and> openPrice w \<noteq> 0"
  proof
    fix w assume w: "w \<in> set ?w"
    show "close w = openPrice w \<and> openPrice w \<noteq> 0"
      using finiteAverage_zero_D [OF fz o w] o w by simp
  qed
  moreover have "lb \<noteq> []" using ne by (auto simp: sliceLast_def split: if_splits)
  ultimately show "lb \<noteq> [] \<and> (\<forall>w \<in> set ?w. close w = openPrice w \<and> openPrice w \<noteq> 0)"
    by simp
qed

lemma jge_currentDiffJ_zero:
  "jge (currentDiffJ c) (Fin 0) \<longleftrightarrow>
     0 < openPrice c \<or> (openPrice c \<noteq> 0 \<and> close c = openPrice c)
     \<or> (openPrice c = 0 \<and> close c \<noteq> 0)"
  by (auto simp: currentDiffJ_def zero_le_mult_iff zero_le_divide_iff)

lemma jgt_currentDiffJ_zero:
  "jgt (currentDiffJ c) (Fin 0) \<longleftrightarrow>
     (0 < openPrice c \<and> close c \<noteq> openPrice c) \<or> (openPrice c = 0 \<and> close c \<noteq> 0)"
  by (auto simp: currentDiffJ_def zero_less_mult_iff zero_less_divide_iff)




text \<open>
  C4, as stated, fails on the first variant, whose legend test is
  \<open>currentDiff >= dynamicThreshold\<close>: with a window of candles that do not move, the
  average and the threshold are 0, and a candle with \<open>open = close\<close> is flagged as
  a legend although its movement is 0.
\<close>

theorem flat_candle_flagged:
  "legendTest cfg3 flat (replicate 13 flat) =
     Inr \<lparr>lt_currentDiff = Fin 0, lt_averageDiff = Fin 0, lt_dynamicThreshold = Fin 0\<rparr>
   \<and> close flat = openPrice flat
   \<and> isLegend cfg3 flat (replicate 13 flat) = Inr True
   \<and> \<not> (isLegend cfg3 flat (replicate 13 flat) = Inr True \<longleftrightarrow>
          0 < \<bar>close flat - openPrice flat\<bar> / openPrice flat * 100)"
  by (simp add: isLegend_def legendTest_def Let_def cfg3_def config_def sliceLast_def
      numeral_3_eq_3 previousDiffJ_def currentDiffJ_def flat_def math_mean_def)

text \<open>
  C4, amended: when the window is not empty and each of its candles has
  \<open>open = close\<close> and a nonzero open (which is when the average movement is 0, lemma
  \<open>averageDiff_zero_iff\<close>), no fault is raised and the average and the dynamic
  threshold are 0. The first variant then flags every candle with a positive open, the
  one with \<open>open = close\<close> included (and, outside positive prices, a candle with a
  negative open when \<open>open = close\<close>, and one with a zero open when its close is not
  0). The second variant, whose test is strict, flags a candle with a positive open
  exactly when its movement is greater than 0 (and a candle with a zero open when its
  close is not 0).
\<close>

theorem zero_threshold_legend:
  assumes "lb \<noteq> []"
    and "\<forall>w \<in> set (sliceLast (lookbackCandles cfg) lb).
           close w = openPrice w \<and> openPrice w \<noteq> 0"
  shows "legendTest cfg c lb =
           Inr \<lparr>lt_currentDiff = currentDiffJ c, lt_averageDiff = Fin 0,
                lt_dynamicThreshold = Fin 0\<rparr>
       \<and> isLegend cfg c lb =
           Inr (0 < openPrice c \<or> (openPrice c \<noteq> 0 \<and> close c = openPrice c)
                \<or> (openPrice c = 0 \<and> close c \<noteq> 0))
       \<and> isLegend2 cfg c lb =
           Inr ((0 < openPrice c \<and> close c \<noteq> openPrice c)
                \<or> (openPrice c = 0 \<and> close c \<noteq> 0))
       \<and> (0 < openPrice c \<longrightarrow>
            isLegend cfg c lb = Inr True
            \<and> (isLegend2 cfg c lb = Inr True \<longleftrightarrow>
                 0 < \<bar>close c - openPrice c\<bar> / openPrice c * 100))"
proof -
  note lt = legendTest_flat_window [OF assms, of c]
  have l1: "isLegend cfg c lb =
           Inr (0 < openPrice c \<or> (openPrice c \<noteq> 0 \<and> close c = openPrice c)
                \<or> (openPrice c = 0 \<and> close c \<noteq> 0))"
    by (simp only: isLegend_def lt sum.case LegendTest.simps jge_currentDiffJ_zero)
  have l2: "isLegend2 cfg c lb =
           Inr ((0 < openPrice c \<and> close c \<noteq> openPrice c)
                \<or> (openPrice c = 0 \<and> close c \<noteq> 0))"
    by (simp only: isLegend2_def lt sum.case LegendTest.simps jgt_currentDiffJ_zero)
  have l3: "0 < openPrice c \<longrightarrow>
            isLegend cfg c lb = Inr True
            \<and> (isLegend2 cfg c lb = Inr True \<longleftrightarrow>
                 0 < \<bar>close c - openPrice c\<bar> / openPrice c * 100)"
    unfolding l1 l2 by (auto simp: zero_less_mult_iff zero_less_divide_iff)
  show ?thesis
  proof (intro conjI)
    show "legendTest cfg c lb =
           Inr \<lparr>lt_currentDiff = currentDiffJ c, lt_averageDiff = Fin 0,
                lt_dynamicThreshold = Fin 0\<rparr>" by (rule lt)
    show "isLegend cfg c lb =
           Inr (0 < openPrice c \<or> (openPrice c \<noteq> 0 \<and> close c = openPrice c)
                \<or> (openPrice c = 0 \<and> close c \<noteq> 0))" by (rule l1)
    show "isLegend2 cfg c lb =
           Inr ((0 < openPrice c \<and> close c \<noteq> openPrice c)
                \<or> (openPrice c = 0 \<and> close c \<noteq> 0))" by (rule l2)
    show "0 < openPrice c \<longrightarrow>
            isLegend cfg c lb = Inr True
            \<and> (isLegend2 cfg c lb = Inr True \<longleftrightarrow>
                 0 < \<bar>close c - openPrice c\<bar> / openPrice c * 100)" by (rule l3)
  qed
qed

theorem zero_threshold_legend_witness:
  "replicate 13 flat \<noteq> []
   \<and> 0 < openPrice flat \<and> 0 < openPrice cLegend
   \<and> isLegend cfg3 flat (replicate 13 flat) = Inr True
   \<and> isLegend2 cfg3 flat (replicate 13 flat) = Inr False
   \<and> isLegend cfg3 cLegend (replicate 13 flat) = Inr True
   \<and> isLegend2 cfg3 cLegend (replicate 13 flat) = Inr True"
proof -
  have a: "replicate 13 flat \<noteq> []" by simp
  have b: "\<forall>w \<in> set (sliceLast (lookbackCandles cfg3) (replicate 13 flat)).
           close w = openPrice w \<and> openPrice w \<noteq> 0"
    by (simp add: sliceLast_def cfg3_def config_def flat_def)
  show ?thesis
    using zero_threshold_legend [OF a b, of flat] zero_threshold_legend [OF a b, of cLegend]
    by (simp add: flat_def cLegend_def)
qed

end
